theory Spec2Isabelle
  imports Complex_Main "HOL-Library.Word" "HOL-Library.AList"
begin

section \<open>Values of the host language\<close>

text \<open>
  The snapshot engine is the class \<open>PinataService\<close> (\<open>src/unnamed/part_000\<close>) and the two
  command handlers of \<open>src/src/extension.ts\<close> that drive it. Everything the class reaches
  outside itself (the editor's workspace API, the pinning service's SDK, the process
  environment) is an argument of the model: the record \<open>host\<close> below gives the outcome
  of each external call, and the record \<open>world\<close> holds what the class can change outside
  itself.

  A JavaScript string is modelled as a HOL \<open>string\<close>; it has the NUL character that
  \<open>isTextFile\<close> tests for. A file's bytes are a list of 8-bit words.
\<close>

type_synonym uri = string
type_synonym bytes = "8 word list"

datatype error = Error string | TypeError string

text \<open>
  A decoded JSON value, with \<open>JUndefined\<close> for a property that is absent. It is the
  runtime type of the fields declared \<open>any\<close>, and of the two fields that
  \<open>loadFromIPFS\<close> checks at run time.
\<close>

datatype jsvalue =
    JUndefined
  | JNull
  | JBool bool
  | JNum real
  | JStr string
  | JArr "jsvalue list"
  | JObj "(string \<times> jsvalue) list"

text \<open>JavaScript truthiness, as used by \<open>!x\<close>, \<open>x || y\<close> and \<open>if (x)\<close>.\<close>

fun truthy :: "jsvalue \<Rightarrow> bool" where
  "truthy JUndefined = False"
| "truthy JNull = False"
| "truthy (JBool b) = b"
| "truthy (JNum r) = (r \<noteq> 0)"
| "truthy (JStr s) = (s \<noteq> [])"
| "truthy (JArr xs) = True"
| "truthy (JObj kvs) = True"

definition or_else :: "jsvalue \<Rightarrow> jsvalue \<Rightarrow> jsvalue" where
  "or_else a b = (if truthy a then a else b)"

text \<open>A value of type \<open>string | undefined\<close> (or \<open>string | null\<close>) and its truthiness.\<close>

definition truthy_str :: "string option \<Rightarrow> bool" where
  "truthy_str v = (case v of None \<Rightarrow> False | Some s \<Rightarrow> s \<noteq> [])"

definition or_str :: "string option \<Rightarrow> string \<Rightarrow> string" where
  "or_str v d = (case v of None \<Rightarrow> d | Some s \<Rightarrow> if s = [] then d else s)"

section \<open>Data model\<close>

record ('files, 'folders) WorkspaceState =
  version :: jsvalue
  timestamp :: string
  workspaceId :: jsvalue
  apiConfiguration :: jsvalue
  clineMessages :: jsvalue
  currentTask :: jsvalue
  autoApprovalSettings :: jsvalue
  browserSettings :: jsvalue
  files :: 'files
  folders :: 'folders

text \<open>
  The interface \<open>WorkspaceState\<close> describes two kinds of value. The snapshot that
  \<open>serializeWorkspaceState\<close> builds has the declared types: \<open>files\<close> is the object
  \<open>{ [filePath]: text }\<close>, an association list in insertion order with one pair per key,
  and \<open>folders\<close> is an array of strings. A snapshot fetched from the gateway is cast to
  \<open>WorkspaceState\<close> unchecked: its \<open>files\<close> and \<open>folders\<close> are whatever JSON the blob
  holds, or absent. In both, \<open>version\<close> and \<open>workspaceId\<close> are JSON values, since
  \<open>loadFromIPFS\<close> tests them at run time; \<open>serializeWorkspaceState\<close> always stores
  strings there.
\<close>

type_synonym SerializedState = "((string \<times> string) list, string list) WorkspaceState"
type_synonym FetchedState = "(jsvalue, jsvalue) WorkspaceState"

record PinataConfig =
  jwt :: string
  gateway :: "string option"

record PinataSDK =
  pinataJwt :: string
  pinataGateway :: string

record PinataService =
  pinata :: "PinataSDK option"
  service_workspaceId :: string
  currentCID :: "string option"

definition new_PinataService :: "string \<Rightarrow> PinataService" where
  "new_PinataService wid = \<lparr>pinata = None, service_workspaceId = wid, currentCID = None\<rparr>"

record UserProfile =
  email :: string
  registrationDate :: string
  lastActivity :: string

text \<open>The editor's settings that the engine reads or writes, and the process environment.\<close>

record settings =
  pinata_jwt :: "string option"
  pinata_gateway :: "string option"
  workspace_ipfsCID :: "string option"
  mcxProtocol_email :: "string option"
  mcxProtocol_registrationDate :: "string option"
  mcxProtocol_lastActivity :: "string option"

record environ =
  PINATA_JWT :: "string option"
  PINATA_GATEWAY :: "string option"

record WorkspaceFolder =
  wf_name :: string
  wf_uri :: uri

datatype FileType = Unknown | File | Directory | SymbolicLink

record StateProvider =
  getApiConfiguration :: jsvalue
  getClineMessages :: jsvalue
  getCurrentTask :: jsvalue
  getAutoApprovalSettings :: jsvalue
  getBrowserSettings :: jsvalue

record UploadRequest =
  file_name :: string
  file_content :: string
  metadata_name :: string
  kv_workspaceId :: string
  kv_version :: jsvalue
  kv_timestamp :: string
  kv_userEmail :: string

record PinResponse =
  IpfsHash :: string

text \<open>
  The outcome of every external call. \<open>Inl\<close> is a rejected promise or a thrown
  exception. \<open>findFiles\<close> is the search for \<open>**/*\<close> in one workspace folder that excludes
  \<open>**/node_modules/**\<close>; \<open>toString_utf8\<close> is \<open>Buffer.from(content).toString('utf8')\<close>;
  \<open>gateways_get\<close> yields the \<open>data\<close> field of the gateway's answer, \<open>None\<close> when it is
  \<open>null\<close> or \<open>undefined\<close>. \<open>getStateProvider\<close> is the lookup of the other extension's
  state provider, \<open>None\<close> when a link of the optional chain is missing; a getter of the
  provider that is missing or returns \<open>undefined\<close> gives \<open>JUndefined\<close>, and the getters are
  taken not to raise. The outcome of \<open>createDirectory\<close> is listed for completeness: the
  code ignores it. \<open>joinPath\<close> is \<open>Uri.joinPath\<close> with a string fragment, and the buffer
  of a string content is represented by the string itself; what \<open>Uri.joinPath\<close> and
  \<open>Buffer.from\<close> do with a fragment or a content that is not a string is left to
  \<open>joinPath_nonstring\<close> and \<open>Buffer_from_nonstring\<close>.
\<close>

record host =
  process_env :: environ
  workspaceFolders :: "WorkspaceFolder list option"
  findFiles :: "WorkspaceFolder \<Rightarrow> error + uri list"
  stat :: "uri \<Rightarrow> error + FileType"
  readFile :: "uri \<Rightarrow> error + bytes"
  toString_utf8 :: "bytes \<Rightarrow> string"
  asRelativePath :: "uri \<Rightarrow> string"
  joinPath :: "uri \<Rightarrow> string \<Rightarrow> uri"
  joinPath_nonstring :: "uri \<Rightarrow> jsvalue \<Rightarrow> error + uri"
  createDirectory :: "uri \<Rightarrow> error + unit"
  writeFile :: "uri \<Rightarrow> string \<Rightarrow> error + unit"
  Buffer_from_nonstring :: "jsvalue \<Rightarrow> error + string"
  getStateProvider :: "error + StateProvider option"
  now_ISO :: string
  JSON_stringify :: "SerializedState \<Rightarrow> string"
  import_UserProfileService :: "error + unit"
  testAuthentication :: "PinataSDK \<Rightarrow> error + unit"
  pinata_unpin :: "string list \<Rightarrow> error + unit"
  pinata_upload :: "UploadRequest \<Rightarrow> error + PinResponse"
  gateways_get :: "string \<Rightarrow> error + FetchedState option"
  config_update :: "string \<Rightarrow> string \<Rightarrow> error + unit"

text \<open>
  The calls that leave the engine, in the order they are issued. An event is recorded
  when the call is made, whatever its outcome. Progress notifications and debug logging
  are not recorded; console warnings are, since they are the only record of a swallowed
  failure.
\<close>

datatype event =
    ConsoleWarn string
  | Unpin "string list"
  | Upload UploadRequest
  | ConfigUpdate string string
  | GatewayGet string
  | CreateDirectory uri
  | WriteFile uri string
  | CommitNotification string string string

record world =
  configuration :: settings
  trace :: "event list"

definition emit :: "event \<Rightarrow> world \<Rightarrow> world" where
  "emit e w = w\<lparr>trace := trace w @ [e]\<rparr>"

text \<open>The events a run added, given the world before and after it.\<close>

definition events_since :: "world \<Rightarrow> world \<Rightarrow> event list" where
  "events_since w w' = drop (length (trace w)) (trace w')"

section \<open>Credentials\<close>

text \<open>
  The token literal of the source is a complete service credential. Only its first
  segment, the fixed header of every HS256 token, is reproduced here; what matters to
  the code is that the literal is not empty.
\<close>

definition DEVELOPMENT_FALLBACK_JWT :: string where
  "DEVELOPMENT_FALLBACK_JWT = ''eyJhbGciOiJIUzI1NiIsInR5cCI6IkpXVCJ9''"

definition getPinataConfig :: "settings \<Rightarrow> environ \<Rightarrow> PinataConfig option" where
  "getPinataConfig config env =
    (let jwt0 = pinata_jwt config;
         gateway0 = pinata_gateway config;
         jwt1 = (if \<not> truthy_str jwt0 then PINATA_JWT env else jwt0);
         gateway1 = (if \<not> truthy_str gateway0
                     then Some (or_str (PINATA_GATEWAY env) ''gateway.pinata.cloud'')
                     else gateway0);
         jwt2 = (if \<not> truthy_str jwt1 then Some DEVELOPMENT_FALLBACK_JWT else jwt1)
     in case jwt2 of
          None \<Rightarrow> None
        | Some j \<Rightarrow>
            if j = [] then None
            else Some \<lparr>jwt = j, gateway = Some (or_str gateway1 ''gateway.pinata.cloud'')\<rparr>)"

text \<open>The same lookup, as the command handlers repeat it before they call the service.\<close>

definition handler_jwt :: "settings \<Rightarrow> environ \<Rightarrow> string option" where
  "handler_jwt config env =
    (let jwt0 = pinata_jwt config;
         jwt1 = (if \<not> truthy_str jwt0 then PINATA_JWT env else jwt0);
         jwt2 = (if \<not> truthy_str jwt1 then Some DEVELOPMENT_FALLBACK_JWT else jwt1)
     in jwt2)"

definition initialize :: "host \<Rightarrow> PinataService \<Rightarrow> PinataConfig \<Rightarrow> bool \<times> PinataService" where
  "initialize h svc config =
    (let sdk = \<lparr>pinataJwt = jwt config,
                pinataGateway = or_str (gateway config) ''gateway.pinata.cloud''\<rparr>;
         svc' = svc\<lparr>pinata := Some sdk\<rparr>
     in case testAuthentication h sdk of
          Inr u \<Rightarrow> (True, svc')
        | Inl e \<Rightarrow> (False, svc'))"

definition ensureInitialized :: "host \<Rightarrow> PinataService \<Rightarrow> world \<Rightarrow> bool \<times> PinataService" where
  "ensureInitialized h svc w =
    (case pinata svc of
       Some sdk \<Rightarrow> (True, svc)
     | None \<Rightarrow>
        (case getPinataConfig (configuration w) (process_env h) of
           None \<Rightarrow> (False, svc)
         | Some config \<Rightarrow> initialize h svc config))"

section \<open>Serialization\<close>

definition isTextFile :: "string \<Rightarrow> bool" where
  "isTextFile content = (CHR 0x00 \<notin> set content)"

text \<open>
  The assignment \<open>obj[key] = value\<close> on an object literal, for a string value: a new key
  is appended, an existing key keeps its place, and the key \<open>__proto__\<close> is the inherited
  accessor, whose setter ignores a string, so that no property is made.
\<close>

definition object_set :: "string \<Rightarrow> string \<Rightarrow> (string \<times> string) list \<Rightarrow> (string \<times> string) list" where
  "object_set key val obj = (if key = ''__proto__'' then obj else AList.update key val obj)"

text \<open>
  The body of the loop over the first 100 URIs of a workspace folder. The accumulator is
  the \<open>files\<close> object, the \<open>folders\<close> array and the world (for the console). A failing
  \<open>stat\<close> or \<open>readFile\<close> lands in the \<open>catch\<close> of the loop body.
\<close>

type_synonym scan = "(string \<times> string) list \<times> string list \<times> world"

definition could_not_read :: "uri \<Rightarrow> event" where
  "could_not_read u = ConsoleWarn (''Could not read file '' @ u @ '':'')"

definition visit_uri :: "host \<Rightarrow> uri \<Rightarrow> scan \<Rightarrow> scan" where
  "visit_uri h u acc =
    (case acc of (fs, ds, w) \<Rightarrow>
      (case stat h u of
         Inl e \<Rightarrow> (fs, ds, emit (could_not_read u) w)
       | Inr ty \<Rightarrow>
          if ty = File then
            (case readFile h u of
               Inl e \<Rightarrow> (fs, ds, emit (could_not_read u) w)
             | Inr content \<Rightarrow>
                 let text = toString_utf8 h content
                 in if isTextFile text
                    then (object_set (asRelativePath h u) text fs, ds, w)
                    else (fs, ds, w))
          else if ty = Directory then (fs, ds @ [asRelativePath h u], w)
          else (fs, ds, w)))"

definition visit_uris :: "host \<Rightarrow> uri list \<Rightarrow> scan \<Rightarrow> scan" where
  "visit_uris h us acc = foldl (\<lambda>a u. visit_uri h u a) acc us"

text \<open>
  The loop over the workspace folders. A failing \<open>findFiles\<close> is not caught here: the
  loop ends with the error, and with what was accumulated and logged until then.
\<close>

fun scan_folders :: "host \<Rightarrow> WorkspaceFolder list \<Rightarrow> scan \<Rightarrow> error option \<times> scan" where
  "scan_folders h [] acc = (None, acc)"
| "scan_folders h (wsFolder # others) acc =
    (case findFiles h wsFolder of
       Inl e \<Rightarrow> (Some e, acc)
     | Inr uris \<Rightarrow> scan_folders h others (visit_uris h (take 100 uris) acc))"

definition provider_call :: "StateProvider option \<Rightarrow> (StateProvider \<Rightarrow> jsvalue) \<Rightarrow> jsvalue" where
  "provider_call sp getter = (case sp of None \<Rightarrow> JUndefined | Some p \<Rightarrow> getter p)"

text \<open>
  An exception of \<open>findFiles\<close> or of the state provider leaves \<open>serializeWorkspaceState\<close>
  and is caught by \<open>commitToIPFS\<close>.
\<close>

definition serializeWorkspaceState ::
  "host \<Rightarrow> PinataService \<Rightarrow> world \<Rightarrow> (error + SerializedState) \<times> world" where
  "serializeWorkspaceState h svc w =
    (case getStateProvider h of
       Inl e \<Rightarrow> (Inl e, w)
     | Inr sp \<Rightarrow>
        (case scan_folders h (case workspaceFolders h of None \<Rightarrow> [] | Some wsFolders \<Rightarrow> wsFolders) ([], [], w) of
           (Some e, fs, ds, w') \<Rightarrow> (Inl e, w')
         | (None, fs, ds, w') \<Rightarrow>
            (Inr \<lparr>version = JStr ''1.0.0'',
                  timestamp = now_ISO h,
                  workspaceId = JStr (service_workspaceId svc),
                  apiConfiguration = or_else (provider_call sp getApiConfiguration) (JObj []),
                  clineMessages = or_else (provider_call sp getClineMessages) (JArr []),
                  currentTask = or_else (provider_call sp getCurrentTask) JNull,
                  autoApprovalSettings = or_else (provider_call sp getAutoApprovalSettings) (JObj []),
                  browserSettings = or_else (provider_call sp getBrowserSettings) (JObj []),
                  files = fs,
                  folders = ds\<rparr>, w')))"

section \<open>Commit\<close>

text \<open>\<open>UserProfileService.getUserProfile\<close> of \<open>src/src/services/user/UserProfileService.ts\<close>.\<close>

definition getUserProfile :: "settings \<Rightarrow> UserProfile option" where
  "getUserProfile config =
    (if \<not> truthy_str (mcxProtocol_email config) then None
     else Some \<lparr>email = or_str (mcxProtocol_email config) [],
                registrationDate = or_str (mcxProtocol_registrationDate config) [],
                lastActivity = or_str (mcxProtocol_lastActivity config) []\<rparr>)"

definition commit_userEmail :: "host \<Rightarrow> world \<Rightarrow> string \<times> world" where
  "commit_userEmail h w =
    (case import_UserProfileService h of
       Inl e \<Rightarrow> (''unknown@example.com'',
                 emit (ConsoleWarn ''Could not retrieve user email for IPFS metadata:'') w)
     | Inr u \<Rightarrow>
        (case getUserProfile (configuration w) of
           None \<Rightarrow> (''unknown@example.com'', w)
         | Some p \<Rightarrow> (if email p = [] then ''unknown@example.com'' else email p, w)))"

definition upload_request :: "PinataService \<Rightarrow> host \<Rightarrow> SerializedState \<Rightarrow> string \<Rightarrow> UploadRequest" where
  "upload_request svc h ws userEmail =
    \<lparr>file_name = ''workspace-'' @ service_workspaceId svc @ ''.json'',
     file_content = JSON_stringify h ws,
     metadata_name = ''Cline Workspace '' @ service_workspaceId svc,
     kv_workspaceId = service_workspaceId svc,
     kv_version = version ws,
     kv_timestamp = timestamp ws,
     kv_userEmail = userEmail\<rparr>"

text \<open>The branch \<open>if (this.currentCID)\<close>: the old CID is unpinned, a failure only warns.\<close>

definition unpin_previous :: "host \<Rightarrow> PinataService \<Rightarrow> world \<Rightarrow> world" where
  "unpin_previous h svc w =
    (case currentCID svc of
       None \<Rightarrow> w
     | Some old \<Rightarrow>
        if old = [] then w
        else (case pinata_unpin h [old] of
                Inr u \<Rightarrow> emit (Unpin [old]) w
              | Inl e \<Rightarrow> emit (ConsoleWarn ''Could not unpin old CID:'') (emit (Unpin [old]) w)))"

definition send_notification :: "host \<Rightarrow> string \<Rightarrow> string \<Rightarrow> world \<Rightarrow> world" where
  "send_notification h userEmail cid w =
    (case import_UserProfileService h of
       Inl e \<Rightarrow> emit (ConsoleWarn ''Failed to send IPFS commit email notification:'') w
     | Inr u \<Rightarrow>
        if userEmail \<noteq> [] \<and> userEmail \<noteq> ''unknown@example.com'' \<and> cid \<noteq> []
        then emit (CommitNotification userEmail cid ''Workspace Commit'') w
        else w)"

definition commitToIPFS ::
  "host \<Rightarrow> PinataService \<Rightarrow> world \<Rightarrow> string option \<times> PinataService \<times> world" where
  "commitToIPFS h svc w =
    (case ensureInitialized h svc w of
       (False, svc1) \<Rightarrow> (None, svc1, w)
     | (True, svc1) \<Rightarrow>
        (case serializeWorkspaceState h svc1 w of
           (Inl e, w1) \<Rightarrow> (None, svc1, w1)
         | (Inr workspaceState, w1) \<Rightarrow>
            (let w2 = unpin_previous h svc1 w1 in
             case commit_userEmail h w2 of (userEmail, w3) \<Rightarrow>
              (let req = upload_request svc1 h workspaceState userEmail;
                   w4 = emit (Upload req) w3
               in case pinata_upload h req of
                    Inl e \<Rightarrow> (None, svc1, w4)
                  | Inr result \<Rightarrow>
                     (let svc2 = svc1\<lparr>currentCID := Some (IpfsHash result)\<rparr>;
                          w5 = emit (ConfigUpdate ''workspace.ipfsCID'' (IpfsHash result)) w4
                      in case config_update h ''workspace.ipfsCID'' (IpfsHash result) of
                           Inl e \<Rightarrow> (None, svc2, w5)
                         | Inr u \<Rightarrow>
                            (let w6 = w5\<lparr>configuration :=
                                          (configuration w5)\<lparr>workspace_ipfsCID := Some (IpfsHash result)\<rparr>\<rparr>;
                                 w7 = send_notification h userEmail (IpfsHash result) w6
                             in (Some (IpfsHash result), svc2, w7)))))))"

definition getCurrentCID :: "PinataService \<Rightarrow> world \<Rightarrow> string option" where
  "getCurrentCID svc w =
    (if truthy_str (currentCID svc) then currentCID svc
     else if truthy_str (workspace_ipfsCID (configuration w))
          then workspace_ipfsCID (configuration w) else None)"

definition setCurrentCID :: "PinataService \<Rightarrow> string \<Rightarrow> PinataService" where
  "setCurrentCID svc cid = svc\<lparr>currentCID := Some cid\<rparr>"

section \<open>Restore\<close>

text \<open>
  The \<open>try\<close> block of \<open>loadFromIPFS\<close>; the \<open>catch\<close> turns every error into \<open>null\<close>.
  Reading a property of \<open>null\<close> or \<open>undefined\<close> data is a \<open>TypeError\<close>.
\<close>

definition loadFromIPFS_try ::
  "host \<Rightarrow> PinataService \<Rightarrow> world \<Rightarrow> string \<Rightarrow> (error + FetchedState) \<times> PinataService \<times> world" where
  "loadFromIPFS_try h svc w cid =
    (let w1 = emit (GatewayGet cid) w
     in case gateways_get h cid of
          Inl e \<Rightarrow> (Inl e, svc, w1)
        | Inr None \<Rightarrow> (Inl (TypeError ''Cannot read properties of undefined''), svc, w1)
        | Inr (Some workspaceState) \<Rightarrow>
           if \<not> truthy (version workspaceState) \<or> \<not> truthy (workspaceId workspaceState)
           then (Inl (Error ''Invalid workspace state format''), svc, w1)
           else
            (let svc1 = svc\<lparr>currentCID := Some cid\<rparr>;
                 w2 = emit (ConfigUpdate ''workspace.ipfsCID'' cid) w1
             in case config_update h ''workspace.ipfsCID'' cid of
                  Inl e \<Rightarrow> (Inl e, svc1, w2)
                | Inr u \<Rightarrow>
                   (Inr workspaceState, svc1,
                    w2\<lparr>configuration := (configuration w2)\<lparr>workspace_ipfsCID := Some cid\<rparr>\<rparr>)))"

definition loadFromIPFS ::
  "host \<Rightarrow> PinataService \<Rightarrow> world \<Rightarrow> string \<Rightarrow> FetchedState option \<times> PinataService \<times> world" where
  "loadFromIPFS h svc w cid =
    (case ensureInitialized h svc w of
       (False, svc1) \<Rightarrow> (None, svc1, w)
     | (True, svc1) \<Rightarrow>
        (case loadFromIPFS_try h svc1 w cid of
           (Inl e, svc2, w') \<Rightarrow> (None, svc2, w')
         | (Inr workspaceState, svc2, w') \<Rightarrow> (Some workspaceState, svc2, w')))"

subsection \<open>Materialization\<close>

text \<open>
  The own properties of an object are listed with the keys that are array indices
  (canonical decimal numerals below \<open>2^32 - 1\<close>) first, in ascending order, and then the
  other keys in insertion order.
\<close>

definition is_digit :: "char \<Rightarrow> bool" where
  "is_digit c = (48 \<le> (of_char c :: nat) \<and> (of_char c :: nat) \<le> 57)"

definition digits_val :: "string \<Rightarrow> nat" where
  "digits_val k = foldl (\<lambda>n c. 10 * n + ((of_char c :: nat) - 48)) 0 k"

definition is_array_index :: "string \<Rightarrow> bool" where
  "is_array_index k =
    (case k of
       [] \<Rightarrow> False
     | c # cs \<Rightarrow> list_all is_digit k \<and> (c \<noteq> CHR ''0'' \<or> cs = []) \<and> digits_val k < 4294967295)"

definition property_order :: "(string \<times> 'v) list \<Rightarrow> (string \<times> 'v) list" where
  "property_order kvs =
    sort_key (\<lambda>kv. digits_val (fst kv)) (filter (\<lambda>kv. is_array_index (fst kv)) kvs)
    @ filter (\<lambda>kv. \<not> is_array_index (fst kv)) kvs"

text \<open>The decimal numeral of an index, as the key of an array element or of a character.\<close>

fun decimal :: "nat \<Rightarrow> string" where
  "decimal n =
    (if n < 10 then [''0123456789'' ! n]
     else decimal (n div 10) @ [''0123456789'' ! (n mod 10)])"

text \<open>
  \<open>Object.entries(v)\<close> for any value: a \<open>TypeError\<close> for \<open>undefined\<close> and \<open>null\<close>, the
  own properties of an object, the indexed elements of an array or of a string, nothing
  for a number or a boolean.
\<close>

definition Object_entries :: "jsvalue \<Rightarrow> error + (string \<times> jsvalue) list" where
  "Object_entries v =
    (case v of
       JUndefined \<Rightarrow> Inl (TypeError ''Cannot convert undefined or null to object'')
     | JNull \<Rightarrow> Inl (TypeError ''Cannot convert undefined or null to object'')
     | JBool b \<Rightarrow> Inr []
     | JNum r \<Rightarrow> Inr []
     | JStr s \<Rightarrow> Inr (zip (map decimal [0..<length s]) (map (\<lambda>c. JStr [c]) s))
     | JArr xs \<Rightarrow> Inr (zip (map decimal [0..<length xs]) xs)
     | JObj kvs \<Rightarrow> Inr (property_order kvs))"

text \<open>
  \<open>for (const x of v)\<close>: an array gives its elements and a string its characters; any
  other value is not iterable, which is a \<open>TypeError\<close>.
\<close>

definition for_of :: "jsvalue \<Rightarrow> error + jsvalue list" where
  "for_of v =
    (case v of
       JUndefined \<Rightarrow> Inl (TypeError ''undefined is not iterable'')
     | JNull \<Rightarrow> Inl (TypeError ''null is not iterable'')
     | JBool b \<Rightarrow> Inl (TypeError ''boolean is not iterable'')
     | JNum r \<Rightarrow> Inl (TypeError ''number is not iterable'')
     | JStr s \<Rightarrow> Inr (map (\<lambda>c. JStr [c]) s)
     | JArr xs \<Rightarrow> Inr xs
     | JObj kvs \<Rightarrow> Inl (TypeError ''object is not iterable''))"

text \<open>\<open>Uri.joinPath(base, fragment)\<close> and \<open>Buffer.from(content, 'utf8')\<close> on unchecked values.\<close>

definition joinPath_value :: "host \<Rightarrow> uri \<Rightarrow> jsvalue \<Rightarrow> error + uri" where
  "joinPath_value h base fragment =
    (case fragment of
       JStr s \<Rightarrow> Inr (joinPath h base s)
     | JUndefined \<Rightarrow> joinPath_nonstring h base fragment
     | JNull \<Rightarrow> joinPath_nonstring h base fragment
     | JBool b \<Rightarrow> joinPath_nonstring h base fragment
     | JNum r \<Rightarrow> joinPath_nonstring h base fragment
     | JArr xs \<Rightarrow> joinPath_nonstring h base fragment
     | JObj kvs \<Rightarrow> joinPath_nonstring h base fragment)"

definition Buffer_from :: "host \<Rightarrow> jsvalue \<Rightarrow> error + string" where
  "Buffer_from h content =
    (case content of
       JStr s \<Rightarrow> Inr s
     | JUndefined \<Rightarrow> Buffer_from_nonstring h content
     | JNull \<Rightarrow> Buffer_from_nonstring h content
     | JBool b \<Rightarrow> Buffer_from_nonstring h content
     | JNum r \<Rightarrow> Buffer_from_nonstring h content
     | JArr xs \<Rightarrow> Buffer_from_nonstring h content
     | JObj kvs \<Rightarrow> Buffer_from_nonstring h content)"

text \<open>
  The loop that creates the folders. \<open>Uri.joinPath\<close> is outside the inner \<open>try\<close>: if it
  raises, the loop is left for the \<open>catch\<close> of \<open>syncFromIPFS\<close>. \<open>createDirectory\<close> is
  inside it, and its failure is ignored.
\<close>

fun create_folders :: "host \<Rightarrow> uri \<Rightarrow> jsvalue list \<Rightarrow> world \<Rightarrow> bool \<times> world" where
  "create_folders h workspaceUri [] w = (True, w)"
| "create_folders h workspaceUri (folder # rest) w =
    (case joinPath_value h workspaceUri folder of
       Inl e \<Rightarrow> (False, w)
     | Inr folderUri \<Rightarrow> create_folders h workspaceUri rest (emit (CreateDirectory folderUri) w))"

text \<open>
  The loop that restores the files. \<open>createDirectory\<close> of the parent is inside its own
  \<open>try\<close>; \<open>Buffer.from\<close> and \<open>writeFile\<close> are not, so their failure leaves the loop and
  reaches the \<open>catch\<close> of \<open>syncFromIPFS\<close>, which returns \<open>false\<close>.
\<close>

fun restore_files :: "host \<Rightarrow> uri \<Rightarrow> (string \<times> jsvalue) list \<Rightarrow> world \<Rightarrow> bool \<times> world" where
  "restore_files h workspaceUri [] w = (True, w)"
| "restore_files h workspaceUri ((relativePath, content) # rest) w =
    (let fileUri = joinPath h workspaceUri relativePath;
         parentUri = joinPath h fileUri ''..'';
         w1 = emit (CreateDirectory parentUri) w
     in case Buffer_from h content of
          Inl e \<Rightarrow> (False, w1)
        | Inr contentBytes \<Rightarrow>
           (let w2 = emit (WriteFile fileUri contentBytes) w1
            in case writeFile h fileUri contentBytes of
                 Inl e \<Rightarrow> (False, w2)
               | Inr u \<Rightarrow> restore_files h workspaceUri rest w2))"

text \<open>
  \<open>syncFromIPFS\<close> receives the fetched snapshot as it is. Everything is inside one
  \<open>try\<close>: a \<open>folders\<close> that cannot be iterated, a \<open>files\<close> that has no entries to list, a
  path that cannot be joined, a content that cannot be made a buffer and a write that
  fails all end in \<open>false\<close>.
\<close>

definition syncFromIPFS :: "host \<Rightarrow> world \<Rightarrow> FetchedState \<Rightarrow> bool \<times> world" where
  "syncFromIPFS h w workspaceState =
    (case workspaceFolders h of
       None \<Rightarrow> (True, w)
     | Some [] \<Rightarrow> (True, w)
     | Some (wsFolder # others) \<Rightarrow>
        (case for_of (folders workspaceState) of
           Inl e \<Rightarrow> (False, w)
         | Inr folderList \<Rightarrow>
            (case create_folders h (wf_uri wsFolder) folderList w of
               (False, w1) \<Rightarrow> (False, w1)
             | (True, w1) \<Rightarrow>
                (case Object_entries (files workspaceState) of
                   Inl e \<Rightarrow> (False, w1)
                 | Inr entries \<Rightarrow> restore_files h (wf_uri wsFolder) entries w1))))"

section \<open>Command handlers\<close>

text \<open>
  The handlers of \<open>PluginIPFSCommit\<close> and \<open>PluginIPFSSync\<close>. Each builds a new
  \<open>PinataService\<close> and drops it at the end; \<open>Inl\<close> is the error shown to the user.
\<close>

definition PluginIPFSCommit :: "host \<Rightarrow> world \<Rightarrow> (error + unit) \<times> world" where
  "PluginIPFSCommit h w =
    (case workspaceFolders h of
       None \<Rightarrow> (Inl (Error ''No workspace folder found''), w)
     | Some [] \<Rightarrow> (Inl (Error ''No workspace folder found''), w)
     | Some (wsFolder # others) \<Rightarrow>
        (let pinataService = new_PinataService (wf_name wsFolder)
         in if \<not> truthy_str (handler_jwt (configuration w) (process_env h)) then (Inr (), w)
            else (case commitToIPFS h pinataService w of
                    (cid, svc', w') \<Rightarrow>
                      if truthy_str cid then (Inr (), w')
                      else (Inl (Error ''Failed to commit workspace to IPFS''), w'))))"

text \<open>\<open>input\<close> is what the input box returns: \<open>None\<close> when the user cancels.\<close>

definition PluginIPFSSync :: "host \<Rightarrow> world \<Rightarrow> string option \<Rightarrow> (error + unit) \<times> world" where
  "PluginIPFSSync h w input =
    (case workspaceFolders h of
       None \<Rightarrow> (Inl (Error ''No workspace folder found''), w)
     | Some [] \<Rightarrow> (Inl (Error ''No workspace folder found''), w)
     | Some (wsFolder # others) \<Rightarrow>
        (let pinataService = new_PinataService (wf_name wsFolder)
         in if \<not> truthy_str (handler_jwt (configuration w) (process_env h)) then (Inr (), w)
            else (case input of
                    None \<Rightarrow> (Inr (), w)
                  | Some cid \<Rightarrow>
                     if cid = [] then (Inr (), w)
                     else (case loadFromIPFS h pinataService w cid of
                             (None, svc', w') \<Rightarrow>
                               (Inl (Error ''Failed to load workspace state from IPFS''), w')
                           | (Some workspaceState, svc', w') \<Rightarrow>
                               (Inr (), snd (syncFromIPFS h w' workspaceState))))))"

section \<open>Notions used in the statements\<close>

text \<open>
  Console warnings, and the events that may follow the pointer update of a commit (a
  warning or the notification).
\<close>

fun is_warn :: "event \<Rightarrow> bool" where
  "is_warn (ConsoleWarn m) = True"
| "is_warn e = False"

fun is_note :: "event \<Rightarrow> bool" where
  "is_note (ConsoleWarn m) = True"
| "is_note (CommitNotification a b c) = True"
| "is_note e = False"

text \<open>
  A URI whose visit ends in the \<open>catch\<close> of the loop body: \<open>stat\<close> fails, or it is a
  file and \<open>readFile\<close> fails.
\<close>

definition unreadable :: "host \<Rightarrow> uri \<Rightarrow> bool" where
  "unreadable h u =
    (case stat h u of
       Inl e \<Rightarrow> True
     | Inr ty \<Rightarrow> ty = File \<and> (case readFile h u of Inl e \<Rightarrow> True | Inr c \<Rightarrow> False))"

text \<open>
  The events of \<open>unpin_previous\<close>, read off the service instance alone, and the events
  of a commit up to its upload.
\<close>

definition unpin_events :: "host \<Rightarrow> PinataService \<Rightarrow> event list" where
  "unpin_events h svc =
    (case currentCID svc of
       None \<Rightarrow> []
     | Some old \<Rightarrow>
        if old = [] then []
        else Unpin [old] #
             (case pinata_unpin h [old] of
                Inr u \<Rightarrow> []
              | Inl e \<Rightarrow> [ConsoleWarn ''Could not unpin old CID:'']))"

definition commit_events :: "host \<Rightarrow> PinataService \<Rightarrow> event list \<Rightarrow> event list \<Rightarrow> UploadRequest \<Rightarrow> event list" where
  "commit_events h svc pre mid req = pre @ unpin_events h svc @ mid @ [Upload req]"

text \<open>\<open>occurs_before a b evs\<close>: some occurrence of \<open>a\<close> in \<open>evs\<close> is followed by \<open>b\<close>.\<close>

fun occurs_before :: "event \<Rightarrow> event \<Rightarrow> event list \<Rightarrow> bool" where
  "occurs_before a b [] = False"
| "occurs_before a b (e # es) = ((e = a \<and> b \<in> set es) \<or> occurs_before a b es)"

text \<open>
  An eligible URI: a file that can be read and whose text has no NUL character; and the
  text that is stored for it.
\<close>

definition eligible :: "host \<Rightarrow> uri \<Rightarrow> bool" where
  "eligible h u =
    (case stat h u of
       Inl e \<Rightarrow> False
     | Inr ty \<Rightarrow> ty = File \<and>
         (case readFile h u of
            Inl e \<Rightarrow> False
          | Inr content \<Rightarrow> isTextFile (toString_utf8 h content)))"

definition text_of :: "host \<Rightarrow> uri \<Rightarrow> string" where
  "text_of h u = (case readFile h u of Inl e \<Rightarrow> [] | Inr content \<Rightarrow> toString_utf8 h content)"

text \<open>An eligible URI gets an entry in \<open>files\<close> unless its relative path is \<open>__proto__\<close>.\<close>

definition stored :: "host \<Rightarrow> uri \<Rightarrow> bool" where
  "stored h u = (eligible h u \<and> asRelativePath h u \<noteq> ''__proto__'')"

text \<open>The URIs that the loops of \<open>serializeWorkspaceState\<close> visit, over all workspace folders.\<close>

definition scanned :: "host \<Rightarrow> uri list" where
  "scanned h =
    concat (map (\<lambda>f. case findFiles h f of Inl e \<Rightarrow> [] | Inr uris \<Rightarrow> take 100 uris)
              (case workspaceFolders h of None \<Rightarrow> [] | Some wsFolders \<Rightarrow> wsFolders))"

text \<open>
  What the statements about binary files need of \<open>Buffer.toString('utf8')\<close>: the decoded
  text has a NUL character exactly when the bytes have a zero byte. UTF-8 decoding is
  such: the byte 0 is never part of a longer sequence, and an ill-formed sequence decodes
  to U+FFFD.
\<close>

definition nul_faithful :: "(bytes \<Rightarrow> string) \<Rightarrow> bool" where
  "nul_faithful decode = (\<forall>bs. (CHR 0x00 \<in> set (decode bs)) = (0 \<in> set bs))"





definition attempted :: "('a \<Rightarrow> bool) \<Rightarrow> 'a list \<Rightarrow> 'a list" where
  "attempted ok xs = takeWhile ok xs @ take 1 (dropWhile ok xs)"

section \<open>A concrete host\<close>

text \<open>
  A workspace \<open>/ws\<close> with two text files, a file with a NUL byte and a file that cannot
  be read; no credential is configured anywhere; every call to the pinning service
  succeeds. The decoder is the one-byte-per-character reading, which agrees with UTF-8
  on ASCII; joining \<open>..\<close> to a path yields its parent.
\<close>

definition no_settings :: settings where
  "no_settings = \<lparr>pinata_jwt = None, pinata_gateway = None, workspace_ipfsCID = None,
     mcxProtocol_email = None, mcxProtocol_registrationDate = None, mcxProtocol_lastActivity = None\<rparr>"

definition no_environ :: environ where
  "no_environ = \<lparr>PINATA_JWT = None, PINATA_GATEWAY = None\<rparr>"

definition demo_snapshot :: FetchedState where
  "demo_snapshot = \<lparr>version = JStr ''1.0.0'', timestamp = ''2025-01-01T00:00:00.000Z'',
     workspaceId = JStr ''ws'', apiConfiguration = JObj [], clineMessages = JArr [],
     currentTask = JNull, autoApprovalSettings = JObj [], browserSettings = JObj [],
     files = JObj [(''a.txt'', JStr ''hello''), (''sub/b.txt'', JStr ''world'')],
     folders = JArr [JStr ''sub'']\<rparr>"

definition dirname :: "uri \<Rightarrow> uri" where
  "dirname p = rev (drop 1 (dropWhile (\<lambda>c. c \<noteq> CHR ''/'') (rev p)))"

definition demo_host :: host where
  "demo_host = \<lparr>process_env = no_environ,
     workspaceFolders = Some [\<lparr>wf_name = ''ws'', wf_uri = ''/ws''\<rparr>],
     findFiles = (\<lambda>f. Inr [''/ws/a.txt'', ''/ws/x.bin'', ''/ws/locked.txt'', ''/ws/b.txt'']),
     stat = (\<lambda>u. Inr File),
     readFile = (\<lambda>u. if u = ''/ws/x.bin'' then Inr [0x68, 0x00]
                       else if u = ''/ws/locked.txt'' then Inl (Error ''EACCES'')
                       else Inr [0x68, 0x69]),
     toString_utf8 = map (\<lambda>b. char_of (unat b)),
     asRelativePath = drop 4,
     joinPath = (\<lambda>base rel. if rel = ''..'' then dirname base else base @ ''/'' @ rel),
     joinPath_nonstring = (\<lambda>base v. Inl (TypeError ''The path argument must be of type string'')),
     createDirectory = (\<lambda>u. Inr ()),
     writeFile = (\<lambda>u c. Inr ()),
     Buffer_from_nonstring = (\<lambda>v. Inl (TypeError ''The first argument must be of type string'')),
     getStateProvider = Inr None,
     now_ISO = ''2025-01-01T00:00:00.000Z'',
     JSON_stringify = (\<lambda>ws. concat (map fst (files ws))),
     import_UserProfileService = Inr (),
     testAuthentication = (\<lambda>sdk. Inr ()),
     pinata_unpin = (\<lambda>cids. Inr ()),
     pinata_upload = (\<lambda>req. Inr \<lparr>IpfsHash = ''QmNew''\<rparr>),
     gateways_get = (\<lambda>cid. Inr (Some demo_snapshot)),
     config_update = (\<lambda>k v. Inr ())\<rparr>"

definition demo_world :: world where
  "demo_world = \<lparr>configuration = no_settings\<lparr>workspace_ipfsCID := Some ''QmOld''\<rparr>, trace = []\<rparr>"

definition demo_service :: PinataService where
  "demo_service = (new_PinataService ''ws'')\<lparr>currentCID := Some ''QmOld''\<rparr>"

text \<open>The same host with a pinning service that rejects every upload.\<close>

definition offline_host :: host where
  "offline_host = demo_host\<lparr>pinata_upload := (\<lambda>req. Inl (Error ''network''))\<rparr>"

text \<open>
  Two snapshots as a gateway may return them: one whose \<open>version\<close> and \<open>workspaceId\<close>
  are not strings, one whose \<open>version\<close> is the empty string; and the hosts that serve
  them.
\<close>

definition untyped_snapshot :: FetchedState where
  "untyped_snapshot = demo_snapshot\<lparr>version := JNum 1, workspaceId := JBool True\<rparr>"

definition blank_snapshot :: FetchedState where
  "blank_snapshot = demo_snapshot\<lparr>version := JStr []\<rparr>"

definition untyped_host :: host where
  "untyped_host = demo_host\<lparr>gateways_get := (\<lambda>cid. Inr (Some untyped_snapshot))\<rparr>"

definition blank_host :: host where
  "blank_host = demo_host\<lparr>gateways_get := (\<lambda>cid. Inr (Some blank_snapshot))\<rparr>"




text \<open>
  A workspace of 150 text files \<open>/ws/f\<close>, \<open>/ws/ff\<close>, ..., and the same workspace with the
  binary file \<open>/ws/x.bin\<close> listed first.
\<close>

definition numbered_file :: "nat \<Rightarrow> uri" where
  "numbered_file n = ''/ws/'' @ replicate (Suc n) CHR ''f''"

definition full_host :: host where
  "full_host = demo_host\<lparr>findFiles := (\<lambda>f. Inr (map numbered_file [0..<150]))\<rparr>"

definition crowded_host :: host where
  "crowded_host = demo_host\<lparr>findFiles := (\<lambda>f. Inr (''/ws/x.bin'' # map numbered_file [0..<150]))\<rparr>"

section \<open>Effects of the parts of a commit\<close>

lemma visit_uri_world:
  "snd (snd (visit_uri h u (fs, ds, w))) =
     (if unreadable h u then emit (could_not_read u) w else w)"
  by (simp add: visit_uri_def unreadable_def Let_def split: sum.splits)

lemma visit_uris_world:
  "snd (snd (visit_uris h us (fs, ds, w))) =
     w\<lparr>trace := trace w @ map could_not_read (filter (unreadable h) us)\<rparr>"
proof (induction us arbitrary: fs ds w)
  case Nil
  then show ?case by (simp add: visit_uris_def)
next
  case (Cons u us)
  obtain fs1 ds1 w1 where v: "visit_uri h u (fs, ds, w) = (fs1, ds1, w1)"
    by (cases "visit_uri h u (fs, ds, w)") auto
  have w1: "w1 = (if unreadable h u then emit (could_not_read u) w else w)"
    using visit_uri_world [of h u fs ds w] v by simp
  have "visit_uris h (u # us) (fs, ds, w) = visit_uris h us (fs1, ds1, w1)"
    by (simp add: visit_uris_def v)
  then show ?case
    using Cons.IH [of fs1 ds1 w1] w1 by (simp add: emit_def)
qed

lemma ensureInitialized_currentCID:
  "currentCID (snd (ensureInitialized h svc w)) = currentCID svc"
  by (simp add: ensureInitialized_def initialize_def Let_def split: option.splits sum.splits)

lemma scan_folders_world:
  "scan_folders h fds (fs, ds, w) = (r, fs', ds', w') \<Longrightarrow>
     \<exists>xs. list_all is_warn xs \<and> w' = w\<lparr>trace := trace w @ xs\<rparr>"
proof (induction fds arbitrary: fs ds w)
  case Nil
  then have "list_all is_warn [] \<and> w' = w\<lparr>trace := trace w @ []\<rparr>" by simp
  then show ?case by blast
next
  case (Cons f fds)
  show ?case
  proof (cases "findFiles h f")
    case (Inl e)
    with Cons.prems have "list_all is_warn [] \<and> w' = w\<lparr>trace := trace w @ []\<rparr>" by simp
    then show ?thesis by blast
  next
    case (Inr uris)
    obtain fs1 ds1 w1 where v: "visit_uris h (take 100 uris) (fs, ds, w) = (fs1, ds1, w1)"
      by (cases "visit_uris h (take 100 uris) (fs, ds, w)") auto
    have w1: "w1 = w\<lparr>trace := trace w @ map could_not_read (filter (unreadable h) (take 100 uris))\<rparr>"
      using visit_uris_world [of h "take 100 uris" fs ds w] v by simp
    from Cons.prems Inr v have "scan_folders h fds (fs1, ds1, w1) = (r, fs', ds', w')" by simp
    from Cons.IH [OF this] obtain xs where
      xs: "list_all is_warn xs" "w' = w1\<lparr>trace := trace w1 @ xs\<rparr>"
      by blast
    let ?ys = "map could_not_read (filter (unreadable h) (take 100 uris)) @ xs"
    have "list_all is_warn ?ys"
      using xs(1) by (auto simp add: list_all_iff could_not_read_def)
    moreover have "w' = w\<lparr>trace := trace w @ ?ys\<rparr>" using xs(2) w1 by simp
    ultimately show ?thesis by blast
  qed
qed

lemma serialize_world:
  "serializeWorkspaceState h svc w = (r, w') \<Longrightarrow>
     \<exists>xs. list_all is_warn xs \<and> w' = w\<lparr>trace := trace w @ xs\<rparr>"
proof -
  assume a: "serializeWorkspaceState h svc w = (r, w')"
  let ?fds = "case workspaceFolders h of None \<Rightarrow> [] | Some wsFolders \<Rightarrow> wsFolders"
  show ?thesis
  proof (cases "getStateProvider h")
    case (Inl e)
    with a have "list_all is_warn [] \<and> w' = w\<lparr>trace := trace w @ []\<rparr>"
      by (simp add: serializeWorkspaceState_def)
    then show ?thesis by blast
  next
    case (Inr sp)
    obtain e fs ds w1 where sc: "scan_folders h ?fds ([], [], w) = (e, fs, ds, w1)"
      by (cases "scan_folders h ?fds ([], [], w)") auto
    from a Inr sc have "w' = w1"
      by (cases e) (simp_all add: serializeWorkspaceState_def)
    with scan_folders_world [OF sc] show ?thesis by simp
  qed
qed

lemma unpin_previous_world:
  "unpin_previous h svc w = w\<lparr>trace := trace w @ unpin_events h svc\<rparr>"
  by (simp add: unpin_previous_def unpin_events_def emit_def split: option.splits sum.splits)

lemma commit_userEmail_world:
  "\<exists>xs. list_all is_warn xs \<and> snd (commit_userEmail h w) = w\<lparr>trace := trace w @ xs\<rparr>"
proof (cases "import_UserProfileService h")
  case (Inl e)
  then have "snd (commit_userEmail h w) =
      w\<lparr>trace := trace w @ [ConsoleWarn ''Could not retrieve user email for IPFS metadata:'']\<rparr>"
    by (simp add: commit_userEmail_def emit_def)
  moreover have "list_all is_warn [ConsoleWarn ''Could not retrieve user email for IPFS metadata:'']"
    by simp
  ultimately show ?thesis by blast
next
  case (Inr u)
  then have "list_all is_warn [] \<and> snd (commit_userEmail h w) = w\<lparr>trace := trace w @ []\<rparr>"
    by (simp add: commit_userEmail_def split: option.splits)
  then show ?thesis by blast
qed

lemma send_notification_world:
  "\<exists>xs. list_all is_note xs \<and> send_notification h m c w = w\<lparr>trace := trace w @ xs\<rparr>"
proof -
  have "send_notification h m c w = w\<lparr>trace := trace w @ []\<rparr>
      \<or> send_notification h m c w = w\<lparr>trace := trace w @ [ConsoleWarn ''Failed to send IPFS commit email notification:'']\<rparr>
      \<or> send_notification h m c w = w\<lparr>trace := trace w @ [CommitNotification m c ''Workspace Commit'']\<rparr>"
    by (simp add: send_notification_def emit_def split: sum.splits)
  moreover have "list_all is_note []" "list_all is_note [ConsoleWarn ''Failed to send IPFS commit email notification:'']"
     "list_all is_note [CommitNotification m c ''Workspace Commit'']" by simp_all
  ultimately show ?thesis by blast
qed

lemma commit_shape:
  assumes c: "commitToIPFS h svc w = (r, svc', w')"
  shows "(r = None \<and> currentCID svc' = currentCID svc \<and>
            (\<exists>pre. list_all is_warn pre \<and> w' = w\<lparr>trace := trace w @ pre\<rparr>))
       \<or> (\<exists>pre mid req. list_all is_warn pre \<and> list_all is_warn mid \<and>
            (case pinata_upload h req of
               Inl e \<Rightarrow> r = None \<and> currentCID svc' = currentCID svc \<and>
                          w' = w\<lparr>trace := trace w @ commit_events h svc pre mid req\<rparr>
             | Inr res \<Rightarrow> currentCID svc' = Some (IpfsHash res) \<and>
                 (r = None \<and>
                    w' = w\<lparr>trace := trace w @ commit_events h svc pre mid req
                                 @ [ConfigUpdate ''workspace.ipfsCID'' (IpfsHash res)]\<rparr>
                  \<or> r = Some (IpfsHash res) \<and>
                    (\<exists>post. list_all is_note post \<and>
                       w' = w\<lparr>configuration := (configuration w)\<lparr>workspace_ipfsCID := Some (IpfsHash res)\<rparr>,
                              trace := trace w @ commit_events h svc pre mid req
                                 @ [ConfigUpdate ''workspace.ipfsCID'' (IpfsHash res)] @ post\<rparr>))))"
    (is "?A \<or> ?B")
proof -
  obtain b svc1 where e: "ensureInitialized h svc w = (b, svc1)"
    by (cases "ensureInitialized h svc w") auto
  have cid1: "currentCID svc1 = currentCID svc"
    using ensureInitialized_currentCID [of h svc w] e by simp
  have ue: "unpin_events h svc1 = unpin_events h svc"
    by (simp add: unpin_events_def cid1)
  have triv: "\<exists>pre. list_all is_warn pre \<and> w = w\<lparr>trace := trace w @ pre\<rparr>"
    by (rule exI [of _ "[]"]) simp
  show ?thesis
  proof (cases b)
    case False
    with c e have "r = None" "svc' = svc1" "w' = w" by (auto simp add: commitToIPFS_def)
    with cid1 triv show ?thesis by simp
  next
    case True
    obtain s w1 where s: "serializeWorkspaceState h svc1 w = (s, w1)"
      by (cases "serializeWorkspaceState h svc1 w") auto
    from serialize_world [OF s] obtain pre where
      pre: "list_all is_warn pre" "w1 = w\<lparr>trace := trace w @ pre\<rparr>" by blast
    show ?thesis
    proof (cases s)
      case (Inl err)
      with c e True s have "r = None" "svc' = svc1" "w' = w1" by (auto simp add: commitToIPFS_def)
      with cid1 pre show ?thesis by blast
    next
      case (Inr ws)
      obtain userEmail w3 where m: "commit_userEmail h (unpin_previous h svc1 w1) = (userEmail, w3)"
        by (cases "commit_userEmail h (unpin_previous h svc1 w1)") auto
      from commit_userEmail_world [of h "unpin_previous h svc1 w1"] m obtain mid where
        mid: "list_all is_warn mid"
          "w3 = (unpin_previous h svc1 w1)\<lparr>trace := trace (unpin_previous h svc1 w1) @ mid\<rparr>"
        by auto
      have w3: "w3 = w\<lparr>trace := trace w @ pre @ unpin_events h svc @ mid\<rparr>"
        using mid(2) pre(2) by (simp add: unpin_previous_world ue)
      let ?req = "upload_request svc1 h ws userEmail"
      have w4: "emit (Upload ?req) w3 = w\<lparr>trace := trace w @ commit_events h svc pre mid ?req\<rparr>"
        by (simp add: w3 emit_def commit_events_def)
      have "case pinata_upload h ?req of
               Inl e \<Rightarrow> r = None \<and> currentCID svc' = currentCID svc \<and>
                          w' = w\<lparr>trace := trace w @ commit_events h svc pre mid ?req\<rparr>
             | Inr res \<Rightarrow> currentCID svc' = Some (IpfsHash res) \<and>
                 (r = None \<and>
                    w' = w\<lparr>trace := trace w @ commit_events h svc pre mid ?req
                                 @ [ConfigUpdate ''workspace.ipfsCID'' (IpfsHash res)]\<rparr>
                  \<or> r = Some (IpfsHash res) \<and>
                    (\<exists>post. list_all is_note post \<and>
                       w' = w\<lparr>configuration := (configuration w)\<lparr>workspace_ipfsCID := Some (IpfsHash res)\<rparr>,
                              trace := trace w @ commit_events h svc pre mid ?req
                                 @ [ConfigUpdate ''workspace.ipfsCID'' (IpfsHash res)] @ post\<rparr>))"
      proof (cases "pinata_upload h ?req")
        case up: (Inl err)
        with c e True s Inr m have "r = None" "svc' = svc1" "w' = emit (Upload ?req) w3"
          by (auto simp add: commitToIPFS_def Let_def)
        with up cid1 w4 show ?thesis by simp
      next
        case up: (Inr res)
        let ?cid = "IpfsHash res"
        let ?w5 = "emit (ConfigUpdate ''workspace.ipfsCID'' ?cid) (emit (Upload ?req) w3)"
        have w5: "?w5 = w\<lparr>trace := trace w @ commit_events h svc pre mid ?req
                                 @ [ConfigUpdate ''workspace.ipfsCID'' ?cid]\<rparr>"
          by (simp add: w4) (simp add: emit_def)
        show ?thesis
        proof (cases "config_update h ''workspace.ipfsCID'' ?cid")
          case cu: (Inl err)
          with c e True s Inr m up have "r = None" "svc' = svc1\<lparr>currentCID := Some ?cid\<rparr>" "w' = ?w5"
            by (auto simp add: commitToIPFS_def Let_def)
          with up w5 show ?thesis by simp
        next
          case cu: (Inr u)
          let ?w6 = "?w5\<lparr>configuration := (configuration ?w5)\<lparr>workspace_ipfsCID := Some ?cid\<rparr>\<rparr>"
          from c e True s Inr m up cu have res: "r = Some ?cid" "svc' = svc1\<lparr>currentCID := Some ?cid\<rparr>"
            "w' = send_notification h userEmail ?cid ?w6"
            by (auto simp add: commitToIPFS_def Let_def)
          from send_notification_world [of h userEmail ?cid ?w6] obtain post where
            post: "list_all is_note post" "send_notification h userEmail ?cid ?w6 = ?w6\<lparr>trace := trace ?w6 @ post\<rparr>"
            by blast
          have "w' = w\<lparr>configuration := (configuration w)\<lparr>workspace_ipfsCID := Some ?cid\<rparr>,
                              trace := trace w @ commit_events h svc pre mid ?req
                                 @ [ConfigUpdate ''workspace.ipfsCID'' ?cid] @ post\<rparr>"
            using res(3) post(2) by (simp add: w5)
          with res post(1) up show ?thesis by auto
        qed
      qed
      with pre(1) mid(1) have ?B by blast
      then show ?thesis ..
    qed
  qed
qed

lemmas demo_defs = demo_host_def dirname_def demo_service_def demo_world_def offline_host_def
  no_settings_def no_environ_def demo_snapshot_def

lemmas commit_defs = commitToIPFS_def ensureInitialized_def new_PinataService_def getPinataConfig_def
  truthy_str_def or_str_def initialize_def serializeWorkspaceState_def visit_uris_def visit_uri_def
  Let_def emit_def isTextFile_def object_set_def unpin_previous_def commit_userEmail_def getUserProfile_def
  upload_request_def send_notification_def DEVELOPMENT_FALLBACK_JWT_def provider_call_def
  or_else_def could_not_read_def events_since_def handler_jwt_def PluginIPFSCommit_def

lemma demo_chars:
  "char_of (104::nat) = CHR ''h''" "char_of (105::nat) = CHR ''i''" "char_of (0::nat) = CHR 0x00"
  by code_simp+

lemma events_since_ext [simp]: "events_since w (w\<lparr>trace := trace w @ xs\<rparr>) = xs"
  by (simp add: events_since_def)

lemma events_since_ext2 [simp]:
  "events_since w (w\<lparr>configuration := c, trace := trace w @ xs\<rparr>) = xs"
  by (simp add: events_since_def)

lemma warn_not_unpin: "list_all is_warn xs \<Longrightarrow> Unpin c \<notin> set xs"
  by (auto simp: list_all_iff)

lemma note_not_unpin: "list_all is_note xs \<Longrightarrow> Unpin c \<notin> set xs"
  by (auto simp: list_all_iff)

lemma unpin_events_mem:
  "Unpin c \<in> set (unpin_events h svc) \<Longrightarrow> \<exists>old. currentCID svc = Some old \<and> old \<noteq> [] \<and> c = [old]"
  by (auto simp: unpin_events_def split: option.splits if_splits sum.splits)

section \<open>Commit and the pointer\<close>

text \<open>
  Claim C1. A commit whose upload fails aborts and leaves the pointer alone: if every
  upload that the commit issued was rejected (in particular if it issued none), the
  commit returns \<open>null\<close>, and both the in-memory \<open>currentCID\<close> and the persisted
  setting \<open>workspace.ipfsCID\<close> are what they were before. Read the other way round, the
  pointer moves only after an upload of this commit has succeeded.
\<close>

theorem commit_pointer_atomic:
  assumes c: "commitToIPFS h svc w = (r, svc', w')"
      and f: "\<forall>req. Upload req \<in> set (events_since w w') \<longrightarrow> isl (pinata_upload h req)"
  shows "r = None \<and> currentCID svc' = currentCID svc
         \<and> workspace_ipfsCID (configuration w') = workspace_ipfsCID (configuration w)"
  using commit_shape [OF c]
proof (elim disjE exE conjE)
  fix pre
  assume "r = None" "currentCID svc' = currentCID svc" "w' = w\<lparr>trace := trace w @ pre\<rparr>"
  then show ?thesis by simp
next
  fix pre mid req
  assume k: "case pinata_upload h req of
               Inl e \<Rightarrow> r = None \<and> currentCID svc' = currentCID svc \<and>
                          w' = w\<lparr>trace := trace w @ commit_events h svc pre mid req\<rparr>
             | Inr res \<Rightarrow> currentCID svc' = Some (IpfsHash res) \<and>
                 (r = None \<and>
                    w' = w\<lparr>trace := trace w @ commit_events h svc pre mid req
                                 @ [ConfigUpdate ''workspace.ipfsCID'' (IpfsHash res)]\<rparr>
                  \<or> r = Some (IpfsHash res) \<and>
                    (\<exists>post. list_all is_note post \<and>
                       w' = w\<lparr>configuration := (configuration w)\<lparr>workspace_ipfsCID := Some (IpfsHash res)\<rparr>,
                              trace := trace w @ commit_events h svc pre mid req
                                 @ [ConfigUpdate ''workspace.ipfsCID'' (IpfsHash res)] @ post\<rparr>))"
  show ?thesis
  proof (cases "pinata_upload h req")
    case (Inl e)
    with k show ?thesis by simp
  next
    case (Inr res)
    with k have "Upload req \<in> set (events_since w w')"
      by (auto simp: commit_events_def)
    with f have "isl (pinata_upload h req)" by blast
    with Inr show ?thesis by simp
  qed
qed

theorem commit_pointer_atomic_witness:
  "commitToIPFS offline_host demo_service demo_world =
     (None, demo_service\<lparr>pinata := Some \<lparr>pinataJwt = DEVELOPMENT_FALLBACK_JWT, pinataGateway = ''gateway.pinata.cloud''\<rparr>\<rparr>,
      demo_world\<lparr>trace := [ConsoleWarn ''Could not read file /ws/locked.txt:'', Unpin [''QmOld''],
         Upload \<lparr>file_name = ''workspace-ws.json'', file_content = ''a.txtb.txt'',
            metadata_name = ''Cline Workspace ws'', kv_workspaceId = ''ws'',
            kv_version = JStr ''1.0.0'', kv_timestamp = ''2025-01-01T00:00:00.000Z'',
            kv_userEmail = ''unknown@example.com''\<rparr>]\<rparr>)
   \<and> currentCID demo_service = Some ''QmOld''
   \<and> workspace_ipfsCID (configuration demo_world) = Some ''QmOld''"
  using commit_pointer_atomic [of offline_host demo_service demo_world
     "fst (commitToIPFS offline_host demo_service demo_world)"
     "fst (snd (commitToIPFS offline_host demo_service demo_world))"
     "snd (snd (commitToIPFS offline_host demo_service demo_world))"]
  by (simp add: demo_defs commit_defs demo_chars)

text \<open>
  Claim C2 says that a commit uploads, then sets the pointer, and only then unpins the
  previous ContentId. The code unpins first: on the concrete host, with \<open>QmOld\<close> as the
  in-memory CID, the unpin of \<open>QmOld\<close> is issued before the upload, and nothing is
  unpinned after the pointer update.
\<close>

theorem commit_unpin_first_counterexample:
  "events_since demo_world (snd (snd (commitToIPFS demo_host demo_service demo_world))) =
     [ConsoleWarn ''Could not read file /ws/locked.txt:'',
      Unpin [''QmOld''],
      Upload \<lparr>file_name = ''workspace-ws.json'', file_content = ''a.txtb.txt'',
            metadata_name = ''Cline Workspace ws'', kv_workspaceId = ''ws'',
            kv_version = JStr ''1.0.0'', kv_timestamp = ''2025-01-01T00:00:00.000Z'',
            kv_userEmail = ''unknown@example.com''\<rparr>,
      ConfigUpdate ''workspace.ipfsCID'' ''QmNew'']
   \<and> fst (commitToIPFS demo_host demo_service demo_world) = Some ''QmNew''
   \<and> \<not> occurs_before (ConfigUpdate ''workspace.ipfsCID'' ''QmNew'') (Unpin [''QmOld''])
         (events_since demo_world (snd (snd (commitToIPFS demo_host demo_service demo_world))))"
  by (simp add: demo_defs commit_defs demo_chars)

text \<open>
  Claim C2, as the code has it. A successful commit of a service instance whose in-memory
  CID is a non-empty \<open>old\<close> issues, in this order: the unpin of \<open>old\<close>, the upload of the
  new snapshot (which succeeds with the returned CID), the update of the setting
  \<open>workspace.ipfsCID\<close> to that CID. Only console warnings come before and between
  them, and only a warning or the notification after them.
\<close>

theorem commit_order:
  assumes c: "commitToIPFS h svc w = (Some cid, svc', w')"
      and p: "currentCID svc = Some old" "old \<noteq> []"
  shows "\<exists>pre mid req post.
           events_since w w' =
             pre @ [Unpin [old]] @ mid @ [Upload req, ConfigUpdate ''workspace.ipfsCID'' cid] @ post
           \<and> list_all is_warn pre \<and> list_all is_warn mid \<and> list_all is_note post
           \<and> pinata_upload h req = Inr \<lparr>IpfsHash = cid\<rparr>"
  using commit_shape [OF c]
proof (elim disjE exE conjE)
  assume "Some cid = None"
  then show ?thesis by simp
next
  fix pre mid req
  assume w: "list_all is_warn pre" "list_all is_warn mid"
  assume k: "case pinata_upload h req of
               Inl e \<Rightarrow> Some cid = None \<and> currentCID svc' = currentCID svc \<and>
                          w' = w\<lparr>trace := trace w @ commit_events h svc pre mid req\<rparr>
             | Inr res \<Rightarrow> currentCID svc' = Some (IpfsHash res) \<and>
                 (Some cid = None \<and>
                    w' = w\<lparr>trace := trace w @ commit_events h svc pre mid req
                                 @ [ConfigUpdate ''workspace.ipfsCID'' (IpfsHash res)]\<rparr>
                  \<or> Some cid = Some (IpfsHash res) \<and>
                    (\<exists>post. list_all is_note post \<and>
                       w' = w\<lparr>configuration := (configuration w)\<lparr>workspace_ipfsCID := Some (IpfsHash res)\<rparr>,
                              trace := trace w @ commit_events h svc pre mid req
                                 @ [ConfigUpdate ''workspace.ipfsCID'' (IpfsHash res)] @ post\<rparr>))"
  show ?thesis
  proof (cases "pinata_upload h req")
    case (Inl e)
    with k show ?thesis by simp
  next
    case (Inr res)
    with k obtain post where post: "list_all is_note post" "cid = IpfsHash res"
      "w' = w\<lparr>configuration := (configuration w)\<lparr>workspace_ipfsCID := Some cid\<rparr>,
              trace := trace w @ commit_events h svc pre mid req
                         @ [ConfigUpdate ''workspace.ipfsCID'' cid] @ post\<rparr>"
      by auto
    obtain tl where ue: "unpin_events h svc = Unpin [old] # tl" "list_all is_warn tl"
      using p by (cases "pinata_unpin h [old]") (simp_all add: unpin_events_def)
    have "events_since w w' =
        pre @ [Unpin [old]] @ (tl @ mid) @ [Upload req, ConfigUpdate ''workspace.ipfsCID'' cid] @ post"
      using post(3) ue(1) by (simp add: commit_events_def)
    moreover have "list_all is_warn (tl @ mid)" using ue(2) w(2) by simp
    moreover have "pinata_upload h req = Inr \<lparr>IpfsHash = cid\<rparr>" using Inr post(2) by simp
    ultimately show ?thesis using w(1) post(1) by blast
  qed
qed

theorem commit_order_witness:
  "commitToIPFS demo_host demo_service demo_world =
     (Some ''QmNew'',
      demo_service\<lparr>pinata := Some \<lparr>pinataJwt = DEVELOPMENT_FALLBACK_JWT, pinataGateway = ''gateway.pinata.cloud''\<rparr>,
                   currentCID := Some ''QmNew''\<rparr>,
      snd (snd (commitToIPFS demo_host demo_service demo_world)))
   \<and> currentCID demo_service = Some ''QmOld''
   \<and> (\<exists>pre mid req post.
           events_since demo_world (snd (snd (commitToIPFS demo_host demo_service demo_world))) =
             pre @ [Unpin [''QmOld'']] @ mid @ [Upload req, ConfigUpdate ''workspace.ipfsCID'' ''QmNew''] @ post
           \<and> list_all is_warn pre \<and> list_all is_warn mid \<and> list_all is_note post
           \<and> pinata_upload demo_host req = Inr \<lparr>IpfsHash = ''QmNew''\<rparr>)"
proof -
  have c: "commitToIPFS demo_host demo_service demo_world =
     (Some ''QmNew'',
      demo_service\<lparr>pinata := Some \<lparr>pinataJwt = DEVELOPMENT_FALLBACK_JWT, pinataGateway = ''gateway.pinata.cloud''\<rparr>,
                   currentCID := Some ''QmNew''\<rparr>,
      snd (snd (commitToIPFS demo_host demo_service demo_world)))"
    by (simp add: demo_defs commit_defs demo_chars)
  have p: "currentCID demo_service = Some ''QmOld''" "''QmOld'' \<noteq> []"
    by (simp_all add: demo_defs new_PinataService_def)
  from commit_order [OF c p] c p(1) show ?thesis by blast
qed

lemma commit_unpin_source:
  assumes c: "commitToIPFS h svc w = (r, svc', w')"
      and m: "Unpin cids \<in> set (events_since w w')"
  shows "Unpin cids \<in> set (unpin_events h svc)"
  using commit_shape [OF c]
proof (elim disjE exE conjE)
  fix pre assume "list_all is_warn pre" "w' = w\<lparr>trace := trace w @ pre\<rparr>"
  with m show ?thesis using warn_not_unpin by auto
next
  fix pre mid req
  assume w: "list_all is_warn pre" "list_all is_warn mid"
  assume k: "case pinata_upload h req of
               Inl e \<Rightarrow> r = None \<and> currentCID svc' = currentCID svc \<and>
                          w' = w\<lparr>trace := trace w @ commit_events h svc pre mid req\<rparr>
             | Inr res \<Rightarrow> currentCID svc' = Some (IpfsHash res) \<and>
                 (r = None \<and>
                    w' = w\<lparr>trace := trace w @ commit_events h svc pre mid req
                                 @ [ConfigUpdate ''workspace.ipfsCID'' (IpfsHash res)]\<rparr>
                  \<or> r = Some (IpfsHash res) \<and>
                    (\<exists>post. list_all is_note post \<and>
                       w' = w\<lparr>configuration := (configuration w)\<lparr>workspace_ipfsCID := Some (IpfsHash res)\<rparr>,
                              trace := trace w @ commit_events h svc pre mid req
                                 @ [ConfigUpdate ''workspace.ipfsCID'' (IpfsHash res)] @ post\<rparr>))"
  have "\<exists>post. Unpin cids \<notin> set post
           \<and> events_since w w' = commit_events h svc pre mid req @ post"
  proof (cases "pinata_upload h req")
    case (Inl e)
    with k have "Unpin cids \<notin> set []
        \<and> events_since w w' = commit_events h svc pre mid req @ []" by simp
    then show ?thesis by blast
  next
    case (Inr res)
    let ?cu = "ConfigUpdate ''workspace.ipfsCID'' (IpfsHash res)"
    from k Inr consider
        (failed) "w' = w\<lparr>trace := trace w @ commit_events h svc pre mid req @ [?cu]\<rparr>"
      | (moved) post where "list_all is_note post"
          "w' = w\<lparr>configuration := (configuration w)\<lparr>workspace_ipfsCID := Some (IpfsHash res)\<rparr>,
                  trace := trace w @ commit_events h svc pre mid req @ [?cu] @ post\<rparr>"
      by auto
    then show ?thesis
    proof cases
      case failed
      then have "Unpin cids \<notin> set [?cu]
          \<and> events_since w w' = commit_events h svc pre mid req @ [?cu]" by simp
      then show ?thesis by blast
    next
      case moved
      then have "Unpin cids \<notin> set (?cu # post)
          \<and> events_since w w' = commit_events h svc pre mid req @ (?cu # post)"
        by (simp add: note_not_unpin)
      then show ?thesis by blast
    qed
  qed
  then obtain post where post: "Unpin cids \<notin> set post"
      "events_since w w' = commit_events h svc pre mid req @ post"
    by blast
  from m post have "Unpin cids \<in> set (commit_events h svc pre mid req)" by simp
  with w show ?thesis using warn_not_unpin by (auto simp: commit_events_def)
qed

lemma unpin_events_fresh: "unpin_events h (new_PinataService wid) = []"
  by (simp add: unpin_events_def new_PinataService_def)

lemma PluginIPFSCommit_events:
  "snd (PluginIPFSCommit h w) = w
   \<or> (\<exists>wid. snd (PluginIPFSCommit h w) = snd (snd (commitToIPFS h (new_PinataService wid) w)))"
  by (simp add: PluginIPFSCommit_def Let_def case_prod_beta split: option.splits list.splits) blast

section \<open>The unpin decision\<close>

text \<open>
  Claim C10. Every unpin that a commit issues names the in-memory \<open>currentCID\<close> of the
  service instance, whatever the setting \<open>workspace.ipfsCID\<close> holds; a commit on a new
  instance issues none; and so the commit command, which builds a new instance each time,
  never unpins.
\<close>

theorem commit_unpins_memory_cid_only:
  "(Unpin cids \<in> set (events_since w (snd (snd (commitToIPFS h svc w)))) \<longrightarrow>
      (\<exists>old. currentCID svc = Some old \<and> old \<noteq> [] \<and> cids = [old]))
   \<and> Unpin cids \<notin> set (events_since w (snd (snd (commitToIPFS h (new_PinataService wid) w))))
   \<and> Unpin cids \<notin> set (events_since w (snd (PluginIPFSCommit h w)))"
proof -
  have src: "Unpin cids \<in> set (events_since w (snd (snd (commitToIPFS h s w)))) \<Longrightarrow>
      Unpin cids \<in> set (unpin_events h s)" for s
    using commit_unpin_source [of h s w "fst (commitToIPFS h s w)"
        "fst (snd (commitToIPFS h s w))" "snd (snd (commitToIPFS h s w))" cids]
    by simp
  have fresh: "Unpin cids \<notin> set (events_since w (snd (snd (commitToIPFS h (new_PinataService x) w))))" for x
    using src [of "new_PinataService x"] by (auto simp: unpin_events_fresh)
  have "Unpin cids \<notin> set (events_since w (snd (PluginIPFSCommit h w)))"
    using PluginIPFSCommit_events [of h w] fresh by (auto simp: events_since_def)
  with src [of svc] fresh [of wid] show ?thesis
    by (auto dest: unpin_events_mem)
qed

theorem commit_unpins_memory_cid_only_witness:
  "workspace_ipfsCID (configuration demo_world) = Some ''QmOld''
   \<and> Unpin [''QmOld''] \<in> set (events_since demo_world (snd (snd (commitToIPFS demo_host demo_service demo_world))))
   \<and> currentCID demo_service = Some ''QmOld''
   \<and> fst (commitToIPFS demo_host (new_PinataService ''ws'') demo_world) = Some ''QmNew''
   \<and> Unpin [''QmOld''] \<notin> set (events_since demo_world (snd (snd (commitToIPFS demo_host (new_PinataService ''ws'') demo_world))))
   \<and> fst (PluginIPFSCommit demo_host demo_world) = Inr ()
   \<and> Unpin [''QmOld''] \<notin> set (events_since demo_world (snd (PluginIPFSCommit demo_host demo_world)))"
  using commit_unpins_memory_cid_only [of "[''QmOld'']" demo_world demo_host demo_service "''ws''"]
  by (simp add: demo_defs commit_defs demo_chars)

lemmas restore_defs = loadFromIPFS_def loadFromIPFS_try_def PluginIPFSSync_def syncFromIPFS_def
  Object_entries_def property_order_def for_of_def joinPath_value_def Buffer_from_def
  is_array_index_def is_digit_def digits_val_def untyped_snapshot_def
  blank_snapshot_def untyped_host_def blank_host_def

section \<open>Credentials\<close>

text \<open>
  Claim C8 asks that a missing credential be a configuration error. With no token in the
  settings and none in the environment, \<open>getPinataConfig\<close> and the handlers' own lookup
  both yield the token bundled in the source, and \<open>ensureInitialized\<close> goes on with it;
  \<open>getPinataConfig\<close> never returns \<open>null\<close>, so the "not configured" branch of
  \<open>ensureInitialized\<close> cannot be reached.
\<close>

theorem missing_credential_uses_bundled_token:
  "getPinataConfig no_settings no_environ =
     Some \<lparr>jwt = DEVELOPMENT_FALLBACK_JWT, gateway = Some ''gateway.pinata.cloud''\<rparr>
   \<and> handler_jwt no_settings no_environ = Some DEVELOPMENT_FALLBACK_JWT
   \<and> DEVELOPMENT_FALLBACK_JWT \<noteq> []
   \<and> ensureInitialized demo_host (new_PinataService ''ws'') \<lparr>configuration = no_settings, trace = []\<rparr> =
       (True, \<lparr>pinata = Some \<lparr>pinataJwt = DEVELOPMENT_FALLBACK_JWT, pinataGateway = ''gateway.pinata.cloud''\<rparr>,
              service_workspaceId = ''ws'', currentCID = None\<rparr>)
   \<and> (\<forall>config env. getPinataConfig config env \<noteq> None)"
proof -
  have "getPinataConfig config env \<noteq> None" for config env
    by (simp add: getPinataConfig_def Let_def truthy_str_def DEVELOPMENT_FALLBACK_JWT_def
          split: option.splits)
  then show ?thesis
    by (simp add: demo_defs commit_defs)
qed

section \<open>Restore\<close>

text \<open>
  Claim C9. After a successful \<open>loadFromIPFS(cid)\<close> the in-memory \<open>currentCID\<close> and the
  setting \<open>workspace.ipfsCID\<close> are both \<open>cid\<close>.
\<close>

theorem load_advances_pointer:
  assumes "loadFromIPFS h svc w cid = (Some ws, svc', w')"
  shows "currentCID svc' = Some cid \<and> workspace_ipfsCID (configuration w') = Some cid"
  using assms
  by (auto simp: loadFromIPFS_def loadFromIPFS_try_def Let_def emit_def
        split: prod.splits bool.splits sum.splits option.splits if_splits)

theorem load_advances_pointer_witness:
  "loadFromIPFS demo_host demo_service demo_world ''QmShared'' =
     (Some demo_snapshot,
      demo_service\<lparr>pinata := Some \<lparr>pinataJwt = DEVELOPMENT_FALLBACK_JWT, pinataGateway = ''gateway.pinata.cloud''\<rparr>,
                   currentCID := Some ''QmShared''\<rparr>,
      \<lparr>configuration = no_settings\<lparr>workspace_ipfsCID := Some ''QmShared''\<rparr>,
       trace = [GatewayGet ''QmShared'', ConfigUpdate ''workspace.ipfsCID'' ''QmShared'']\<rparr>)
   \<and> currentCID demo_service = Some ''QmOld''
   \<and> workspace_ipfsCID (configuration demo_world) = Some ''QmOld''"
  using load_advances_pointer [of demo_host demo_service demo_world "''QmShared''" demo_snapshot
     "fst (snd (loadFromIPFS demo_host demo_service demo_world ''QmShared''))"
     "snd (snd (loadFromIPFS demo_host demo_service demo_world ''QmShared''))"]
  by (simp add: demo_defs commit_defs restore_defs)

text \<open>
  Claim C5 says that a fetched snapshot is rejected when \<open>workspaceId\<close> or \<open>version\<close> is
  absent or of the wrong type, and accepted when both are present and well typed. The
  check is one of truthiness: a snapshot with the number 1 as \<open>version\<close> and \<open>true\<close> as
  \<open>workspaceId\<close> is accepted and materialized; a snapshot with the empty string as
  \<open>version\<close> is rejected.
\<close>

theorem load_validation_counterexample:
  "version untyped_snapshot = JNum 1 \<and> workspaceId untyped_snapshot = JBool True
   \<and> fst (loadFromIPFS untyped_host (new_PinataService ''ws'') demo_world ''QmShared'') = Some untyped_snapshot
   \<and> WriteFile ''/ws/a.txt'' ''hello'' \<in> set (trace (snd (PluginIPFSSync untyped_host demo_world (Some ''QmShared''))))
   \<and> version blank_snapshot = JStr [] \<and> workspaceId blank_snapshot = JStr ''ws''
   \<and> fst (loadFromIPFS blank_host (new_PinataService ''ws'') demo_world ''QmShared'') = None
   \<and> PluginIPFSSync blank_host demo_world (Some ''QmShared'') =
       (Inl (Error ''Failed to load workspace state from IPFS''), emit (GatewayGet ''QmShared'') demo_world)"
  by (simp add: demo_defs commit_defs restore_defs)

lemma events_since_self [simp]: "events_since w w = []"
  by (simp add: events_since_def)

lemma events_since_emit [simp]: "events_since w (emit e w) = [e]"
  by (simp add: events_since_def emit_def)

lemma load_invalid:
  assumes g: "gateways_get h cid = Inr (Some ws)"
      and v: "\<not> (truthy (version ws) \<and> truthy (workspaceId ws))"
  shows "fst (loadFromIPFS_try h svc w cid) = Inl (Error ''Invalid workspace state format'')"
    and "fst (loadFromIPFS h svc w cid) = None"
    and "snd (snd (loadFromIPFS h svc w cid)) = w \<or> snd (snd (loadFromIPFS h svc w cid)) = emit (GatewayGet cid) w"
  using g v
  by (auto simp: loadFromIPFS_def loadFromIPFS_try_def Let_def split: prod.splits bool.splits)

lemma load_valid:
  assumes g: "gateways_get h cid = Inr (Some ws)"
      and v: "truthy (version ws)" "truthy (workspaceId ws)"
      and i: "fst (ensureInitialized h svc w)"
      and u: "config_update h ''workspace.ipfsCID'' cid = Inr ()"
  shows "fst (loadFromIPFS h svc w cid) = Some ws"
  using g v i u
  by (auto simp: loadFromIPFS_def loadFromIPFS_try_def Let_def split: prod.splits bool.splits)

lemma handler_jwt_truthy: "truthy_str (handler_jwt config env)"
  by (simp add: handler_jwt_def Let_def truthy_str_def DEVELOPMENT_FALLBACK_JWT_def split: option.splits)

text \<open>
  Claim C5, as the code has it. Let the gateway return a snapshot. If its \<open>version\<close> or
  its \<open>workspaceId\<close> is falsy (absent, \<open>null\<close>, \<open>false\<close>, 0 or the empty string),
  \<open>loadFromIPFS\<close> raises "Invalid workspace state format" and returns \<open>null\<close>, and the
  sync command does nothing beyond the fetch: no directory is created, no file written.
  If both are truthy, whatever their type, and the service initializes and the setting
  can be written, \<open>loadFromIPFS\<close> returns the snapshot as fetched and the sync command
  goes on to \<open>syncFromIPFS\<close> with it.
\<close>

theorem load_validation:
  assumes g: "gateways_get h cid = Inr (Some ws)"
  shows "(\<not> (truthy (version ws) \<and> truthy (workspaceId ws)) \<longrightarrow>
            fst (loadFromIPFS_try h svc w cid) = Inl (Error ''Invalid workspace state format'')
          \<and> fst (loadFromIPFS h svc w cid) = None
          \<and> set (events_since w (snd (PluginIPFSSync h w (Some cid)))) \<subseteq> {GatewayGet cid})
       \<and> (truthy (version ws) \<and> truthy (workspaceId ws) \<and> fst (ensureInitialized h svc w)
          \<and> config_update h ''workspace.ipfsCID'' cid = Inr () \<longrightarrow>
            fst (loadFromIPFS h svc w cid) = Some ws)
       \<and> (truthy (version ws) \<and> truthy (workspaceId ws) \<and> cid \<noteq> []
          \<and> workspaceFolders h = Some (wsFolder # others)
          \<and> fst (ensureInitialized h (new_PinataService (wf_name wsFolder)) w)
          \<and> config_update h ''workspace.ipfsCID'' cid = Inr () \<longrightarrow>
            PluginIPFSSync h w (Some cid) =
              (Inr (), snd (syncFromIPFS h
                 (snd (snd (loadFromIPFS h (new_PinataService (wf_name wsFolder)) w cid))) ws)))"
proof (intro conjI impI)
  assume v: "\<not> (truthy (version ws) \<and> truthy (workspaceId ws))"
  show "fst (loadFromIPFS_try h svc w cid) = Inl (Error ''Invalid workspace state format'')"
    using load_invalid(1) [OF g v] .
  show "fst (loadFromIPFS h svc w cid) = None"
    using load_invalid(2) [OF g v] .
  show "set (events_since w (snd (PluginIPFSSync h w (Some cid)))) \<subseteq> {GatewayGet cid}"
  proof (cases "workspaceFolders h")
    case None
    then show ?thesis by (simp add: PluginIPFSSync_def)
  next
    case (Some fds)
    show ?thesis
    proof (cases fds)
      case Nil
      with Some show ?thesis by (simp add: PluginIPFSSync_def)
    next
      case (Cons f rest)
      let ?svc = "new_PinataService (wf_name f)"
      show ?thesis
      proof (cases "cid = []")
        case True
        with Some Cons show ?thesis by (simp add: PluginIPFSSync_def Let_def)
      next
        case False
        obtain r s' w' where l: "loadFromIPFS h ?svc w cid = (r, s', w')"
          by (cases "loadFromIPFS h ?svc w cid") auto
        from load_invalid(2) [OF g v, of ?svc w] l have r: "r = None" by simp
        from load_invalid(3) [OF g v, of ?svc w] l have w': "w' = w \<or> w' = emit (GatewayGet cid) w"
          by simp
        from Some Cons False l r have "snd (PluginIPFSSync h w (Some cid)) = w'"
          by (simp add: PluginIPFSSync_def Let_def handler_jwt_truthy)
        with w' show ?thesis by auto
      qed
    qed
  qed
next
  assume "truthy (version ws) \<and> truthy (workspaceId ws) \<and> fst (ensureInitialized h svc w)
          \<and> config_update h ''workspace.ipfsCID'' cid = Inr ()"
  then show "fst (loadFromIPFS h svc w cid) = Some ws"
    using load_valid [OF g] by blast
next
  assume a: "truthy (version ws) \<and> truthy (workspaceId ws) \<and> cid \<noteq> []
          \<and> workspaceFolders h = Some (wsFolder # others)
          \<and> fst (ensureInitialized h (new_PinataService (wf_name wsFolder)) w)
          \<and> config_update h ''workspace.ipfsCID'' cid = Inr ()"
  let ?svc = "new_PinataService (wf_name wsFolder)"
  obtain r s' w' where l: "loadFromIPFS h ?svc w cid = (r, s', w')"
    by (cases "loadFromIPFS h ?svc w cid") auto
  from load_valid [OF g, of ?svc w] a l have r: "r = Some ws" by simp
  from a l r show "PluginIPFSSync h w (Some cid) =
              (Inr (), snd (syncFromIPFS h (snd (snd (loadFromIPFS h ?svc w cid))) ws))"
    by (simp add: PluginIPFSSync_def Let_def handler_jwt_truthy)
qed

theorem load_validation_witness:
  "gateways_get blank_host ''QmShared'' = Inr (Some blank_snapshot)
   \<and> \<not> (truthy (version blank_snapshot) \<and> truthy (workspaceId blank_snapshot))
   \<and> fst (loadFromIPFS_try blank_host demo_service demo_world ''QmShared'') =
        Inl (Error ''Invalid workspace state format'')
   \<and> fst (loadFromIPFS blank_host demo_service demo_world ''QmShared'') = None
   \<and> set (events_since demo_world (snd (PluginIPFSSync blank_host demo_world (Some ''QmShared''))))
        \<subseteq> {GatewayGet ''QmShared''}
   \<and> gateways_get untyped_host ''QmShared'' = Inr (Some untyped_snapshot)
   \<and> truthy (version untyped_snapshot) \<and> truthy (workspaceId untyped_snapshot)
   \<and> fst (ensureInitialized untyped_host demo_service demo_world)
   \<and> config_update untyped_host ''workspace.ipfsCID'' ''QmShared'' = Inr ()
   \<and> fst (loadFromIPFS untyped_host demo_service demo_world ''QmShared'') = Some untyped_snapshot
   \<and> workspaceFolders untyped_host = Some [\<lparr>wf_name = ''ws'', wf_uri = ''/ws''\<rparr>]
   \<and> fst (ensureInitialized untyped_host (new_PinataService ''ws'') demo_world)
   \<and> PluginIPFSSync untyped_host demo_world (Some ''QmShared'') =
        (Inr (), snd (syncFromIPFS untyped_host
           (snd (snd (loadFromIPFS untyped_host (new_PinataService ''ws'') demo_world ''QmShared'')))
           untyped_snapshot))"
proof -
  have g1: "gateways_get blank_host ''QmShared'' = Inr (Some blank_snapshot)"
    by (simp add: demo_defs restore_defs)
  have g2: "gateways_get untyped_host ''QmShared'' = Inr (Some untyped_snapshot)"
    by (simp add: demo_defs restore_defs)
  have f: "workspaceFolders untyped_host = Some [\<lparr>wf_name = ''ws'', wf_uri = ''/ws''\<rparr>]"
    by (simp add: demo_defs restore_defs)
  have side: "\<not> (truthy (version blank_snapshot) \<and> truthy (workspaceId blank_snapshot))"
     "truthy (version untyped_snapshot)" "truthy (workspaceId untyped_snapshot)"
     "fst (ensureInitialized untyped_host demo_service demo_world)"
     "config_update untyped_host ''workspace.ipfsCID'' ''QmShared'' = Inr ()"
     "fst (ensureInitialized untyped_host (new_PinataService ''ws'') demo_world)"
     "''QmShared'' \<noteq> []"
    by (simp_all add: demo_defs restore_defs commit_defs)
  from load_validation [OF g1, of demo_service demo_world]
       load_validation [OF g2, of demo_service demo_world "\<lparr>wf_name = ''ws'', wf_uri = ''/ws''\<rparr>" "[]"]
       g1 g2 f side
  show ?thesis by simp
qed

section \<open>Materialization\<close>

lemma attempted_Nil [simp]: "attempted ok [] = []"
  by (simp add: attempted_def)










section \<open>The scan of a workspace folder\<close>

lemma visit_uris_Cons:
  "visit_uris h (u # us) acc = visit_uris h us (visit_uri h u acc)"
  by (simp add: visit_uris_def)

lemma visit_uris_Nil: "visit_uris h [] acc = acc"
  by (simp add: visit_uris_def)

section \<open>The file cap\<close>

lemma visit_uri_files:
  "fst (visit_uri h u (fs, ds, w)) =
     (if stored h u then AList.update (asRelativePath h u) (text_of h u) fs else fs)"
  by (simp add: visit_uri_def stored_def eligible_def text_of_def object_set_def Let_def
        split: sum.splits)

lemma length_update_le: "length (AList.update k v al) \<le> Suc (length al)"
  by (induction al) auto

lemma visit_uris_length:
  "length (fst (visit_uris h us (fs, ds, w))) \<le> length fs + length us"
proof (induction us arbitrary: fs ds w)
  case Nil
  then show ?case by (simp add: visit_uris_Nil)
next
  case (Cons u us)
  obtain fs1 ds1 w1 where v: "visit_uri h u (fs, ds, w) = (fs1, ds1, w1)"
    by (cases "visit_uri h u (fs, ds, w)") auto
  have "length fs1 \<le> Suc (length fs)"
    using visit_uri_files [of h u fs ds w] v length_update_le [of "asRelativePath h u" "text_of h u" fs] by (simp split: if_splits)
  with Cons.IH [of fs1 ds1 w1] show ?case by (simp add: visit_uris_Cons v)
qed

lemma visit_uris_keys:
  "distinct (map fst fs @ map (asRelativePath h) (filter (stored h) us)) \<Longrightarrow>
   map fst (fst (visit_uris h us (fs, ds, w))) =
     map fst fs @ map (asRelativePath h) (filter (stored h) us)"
proof (induction us arbitrary: fs ds w)
  case Nil
  then show ?case by (simp add: visit_uris_Nil)
next
  case (Cons u us)
  obtain fs1 ds1 w1 where v: "visit_uri h u (fs, ds, w) = (fs1, ds1, w1)"
    by (cases "visit_uri h u (fs, ds, w)") auto
  show ?case
  proof (cases "stored h u")
    case False
    with visit_uri_files [of h u fs ds w] v have "fs1 = fs" by simp
    with Cons.prems False Cons.IH [of fs ds1 w1] show ?thesis
      by (simp add: visit_uris_Cons v)
  next
    case True
    with visit_uri_files [of h u fs ds w] v
    have fs1: "fs1 = AList.update (asRelativePath h u) (text_of h u) fs" by simp
    from Cons.prems True have new: "asRelativePath h u \<notin> fst ` set fs" by auto
    then have k: "map fst fs1 = map fst fs @ [asRelativePath h u]"
      by (simp add: fs1 update_keys)
    from Cons.prems True
    have "distinct (map fst fs1 @ map (asRelativePath h) (filter (stored h) us))"
      by (simp add: k)
    from Cons.IH [OF this, of ds1 w1] True show ?thesis
      by (simp add: visit_uris_Cons v k)
  qed
qed

lemma serialize_single_folder:
  assumes wf: "workspaceFolders h = Some [f]"
      and sp: "getStateProvider h = Inr sp"
      and ff: "findFiles h f = Inr uris"
  shows "\<exists>ws. fst (serializeWorkspaceState h svc w) = Inr ws
           \<and> files ws = fst (visit_uris h (take 100 uris) ([], [], w))"
proof -
  obtain fs ds w1 where v: "visit_uris h (take 100 uris) ([], [], w) = (fs, ds, w1)"
    by (cases "visit_uris h (take 100 uris) ([], [], w)") auto
  with wf sp ff show ?thesis by (simp add: serializeWorkspaceState_def)
qed

lemma single_folder_count:
  assumes wf: "workspaceFolders h = Some [f]"
      and sp: "getStateProvider h = Inr sp"
      and ff: "findFiles h f = Inr uris"
  shows "\<exists>ws. fst (serializeWorkspaceState h svc w) = Inr ws
           \<and> length (files ws) \<le> 100
           \<and> (distinct (map (asRelativePath h) (take 100 uris)) \<longrightarrow>
                length (files ws) = length (filter (stored h) (take 100 uris)))"
proof -
  from serialize_single_folder [OF wf sp ff] obtain ws where
    ws: "fst (serializeWorkspaceState h svc w) = Inr ws"
        "files ws = fst (visit_uris h (take 100 uris) ([], [], w))"
    by blast
  have "length (files ws) \<le> length (take 100 uris)"
    using visit_uris_length [of h "take 100 uris" "[]" "[]" w] ws(2) by simp
  then have le: "length (files ws) \<le> 100" by simp
  have "length (files ws) = length (filter (stored h) (take 100 uris))"
    if d: "distinct (map (asRelativePath h) (take 100 uris))"
  proof -
    from d have "distinct (map (asRelativePath h) (filter (stored h) (take 100 uris)))"
      by (simp add: distinct_map_filter)
    then have "map fst (files ws) = map (asRelativePath h) (filter (stored h) (take 100 uris))"
      using visit_uris_keys [of "[]" h "take 100 uris" "[]" w] ws(2) by simp
    then have "length (map fst (files ws))
        = length (map (asRelativePath h) (filter (stored h) (take 100 uris)))" by simp
    then show ?thesis by simp
  qed
  with ws(1) le show ?thesis by blast
qed

lemma stored_findFiles [simp]: "stored (h\<lparr>findFiles := g\<rparr>) u = stored h u"
  by (simp add: stored_def eligible_def split: sum.splits)

lemma asRelativePath_findFiles [simp]: "asRelativePath (h\<lparr>findFiles := g\<rparr>) = asRelativePath h"
  by simp

lemma stored_numbered: "stored demo_host (numbered_file n)"
  by (simp add: stored_def eligible_def numbered_file_def demo_host_def isTextFile_def demo_chars)

lemma eligible_numbered: "eligible demo_host (numbered_file n)"
  using stored_numbered [of n] by (simp add: stored_def)

lemma not_eligible_bin: "\<not> eligible demo_host ''/ws/x.bin''"
  by (simp add: eligible_def demo_host_def isTextFile_def demo_chars)

lemma not_stored_bin: "\<not> stored demo_host ''/ws/x.bin''"
  by (simp add: stored_def not_eligible_bin)

lemma eligible_findFiles [simp]: "eligible (h\<lparr>findFiles := g\<rparr>) u = eligible h u"
  by (simp add: eligible_def split: sum.splits)

lemma relative_numbered: "asRelativePath demo_host (numbered_file n) = replicate (Suc n) CHR ''f''"
  by (simp add: numbered_file_def demo_host_def)

lemma distinct_numbered:
  "distinct ns \<Longrightarrow> distinct (map (asRelativePath demo_host) (map numbered_file ns))"
proof -
  assume d: "distinct ns"
  have "inj_on (\<lambda>n. replicate (Suc n) CHR ''f'') (set ns)"
    by (rule inj_onI) (metis length_replicate nat.inject)
  with d have "distinct (map (\<lambda>n. replicate (Suc n) CHR ''f'') ns)"
    by (simp add: distinct_map)
  then show ?thesis by (simp add: relative_numbered comp_def)
qed

lemma take_numbered: "take 100 (map numbered_file [0..<150]) = map numbered_file [0..<100]"
  by (simp add: take_map)

lemma take_crowded:
  "take 100 (''/ws/x.bin'' # map numbered_file [0..<150]) = ''/ws/x.bin'' # map numbered_file [0..<99]"
  by (simp add: take_map take_Cons')

text \<open>
  Claim C6 says that a scan root with 150 eligible files always yields 100 entries. The
  cut to 100 is made on the enumeration, before binary and unreadable files are dropped:
  a root with 150 text files and one binary file that is listed first yields 99.
\<close>

theorem file_cap_counterexample:
  "findFiles crowded_host \<lparr>wf_name = ''ws'', wf_uri = ''/ws''\<rparr> =
      Inr (''/ws/x.bin'' # map numbered_file [0..<150])
   \<and> length (filter (eligible crowded_host) (''/ws/x.bin'' # map numbered_file [0..<150])) = 150
   \<and> map_sum id (\<lambda>ws. length (files ws))
        (fst (serializeWorkspaceState crowded_host demo_service demo_world)) = Inr 99"
proof -
  let ?f = "\<lparr>wf_name = ''ws'', wf_uri = ''/ws''\<rparr>"
  let ?uris = "''/ws/x.bin'' # map numbered_file [0..<150]"
  have wf: "workspaceFolders crowded_host = Some [?f]" by (simp add: crowded_host_def demo_host_def)
  have sp: "getStateProvider crowded_host = Inr None" by (simp add: crowded_host_def demo_host_def)
  have ff: "findFiles crowded_host ?f = Inr ?uris" by (simp add: crowded_host_def)
  have n: "length (filter (eligible crowded_host) ?uris) = 150"
    by (simp add: crowded_host_def not_eligible_bin filter_map comp_def eligible_numbered)
  have d: "distinct (map (asRelativePath crowded_host) (take 100 ?uris))"
  proof -
    have "asRelativePath demo_host ''/ws/x.bin'' \<notin> set (map (asRelativePath demo_host) (map numbered_file [0..<99]))"
      by (auto simp: relative_numbered) (simp add: demo_host_def)
    then show ?thesis
      using distinct_numbered [of "[0..<99]"]
      by (simp only: take_crowded crowded_host_def asRelativePath_findFiles list.map distinct.simps)
         simp
  qed
  have c: "length (filter (stored crowded_host) (take 100 ?uris)) = 99"
    by (simp only: take_crowded) (simp add: crowded_host_def not_stored_bin filter_map comp_def stored_numbered)
  from single_folder_count [OF wf sp ff, of demo_service demo_world] d c
  obtain ws where "fst (serializeWorkspaceState crowded_host demo_service demo_world) = Inr ws"
      "length (files ws) = 99" by auto
  then have "map_sum id (\<lambda>ws. length (files ws))
        (fst (serializeWorkspaceState crowded_host demo_service demo_world)) = Inr 99" by simp
  with ff n show ?thesis by blast
qed

text \<open>
  Claim C6, as the code has it. For a workspace of one folder whose search succeeds (and
  a state provider that does not raise), serialization yields a snapshot with at most 100
  files. When the first 100 URIs listed have distinct relative paths, the number of
  entries is the number of eligible files among them (not counting a file whose relative
  path is \<open>__proto__\<close>); it is \<open>min n 100\<close>, for \<open>n\<close> URIs listed, when those first 100 are
  all such files.
\<close>

theorem file_cap_single_folder:
  assumes wf: "workspaceFolders h = Some [f]"
      and sp: "getStateProvider h = Inr sp"
      and ff: "findFiles h f = Inr uris"
  shows "\<exists>ws. fst (serializeWorkspaceState h svc w) = Inr ws
           \<and> length (files ws) \<le> 100
           \<and> (distinct (map (asRelativePath h) (take 100 uris)) \<longrightarrow>
                length (files ws) = length (filter (stored h) (take 100 uris)))
           \<and> (distinct (map (asRelativePath h) (take 100 uris))
              \<and> list_all (stored h) (take 100 uris) \<longrightarrow>
                length (files ws) = min (length uris) 100)"
proof -
  from single_folder_count [OF wf sp ff, of svc w] obtain ws where
    ws: "fst (serializeWorkspaceState h svc w) = Inr ws" "length (files ws) \<le> 100"
      "distinct (map (asRelativePath h) (take 100 uris)) \<longrightarrow>
         length (files ws) = length (filter (stored h) (take 100 uris))"
    by blast
  have "length (files ws) = min (length uris) 100"
    if "distinct (map (asRelativePath h) (take 100 uris)) \<and> list_all (stored h) (take 100 uris)"
  proof -
    from that have "filter (stored h) (take 100 uris) = take 100 uris"
      by (simp add: list_all_iff)
    with that ws(3) show ?thesis by simp
  qed
  with ws show ?thesis by blast
qed

theorem file_cap_single_folder_witness:
  "workspaceFolders full_host = Some [\<lparr>wf_name = ''ws'', wf_uri = ''/ws''\<rparr>]
   \<and> getStateProvider full_host = Inr None
   \<and> findFiles full_host \<lparr>wf_name = ''ws'', wf_uri = ''/ws''\<rparr> = Inr (map numbered_file [0..<150])
   \<and> length (map numbered_file [0..<150]) = 150
   \<and> distinct (map (asRelativePath full_host) (take 100 (map numbered_file [0..<150])))
   \<and> list_all (stored full_host) (take 100 (map numbered_file [0..<150]))
   \<and> (\<exists>ws. fst (serializeWorkspaceState full_host demo_service demo_world) = Inr ws
         \<and> length (files ws) = 100)"
proof -
  let ?f = "\<lparr>wf_name = ''ws'', wf_uri = ''/ws''\<rparr>"
  let ?uris = "map numbered_file [0..<150]"
  have wf: "workspaceFolders full_host = Some [?f]" by (simp add: full_host_def demo_host_def)
  have sp: "getStateProvider full_host = Inr None" by (simp add: full_host_def demo_host_def)
  have ff: "findFiles full_host ?f = Inr ?uris" by (simp add: full_host_def)
  have d: "distinct (map (asRelativePath full_host) (take 100 ?uris))"
    using distinct_numbered [of "[0..<100]"]
    by (simp only: take_numbered full_host_def asRelativePath_findFiles) simp
  have e: "list_all (stored full_host) (take 100 ?uris)"
    by (simp only: take_numbered) (simp add: full_host_def list_all_iff stored_numbered)
  have l: "length ?uris = 150" by simp
  from file_cap_single_folder [OF wf sp ff, of demo_service demo_world] d e l
  have "\<exists>ws. fst (serializeWorkspaceState full_host demo_service demo_world) = Inr ws
         \<and> length (files ws) = 100" by auto
  with wf sp ff d e l show ?thesis by blast
qed

section \<open>Binary files\<close>

lemma set_update_subset: "set (AList.update k v al) \<subseteq> insert (k, v) (set al)"
  by (induction al) auto

lemma visit_uris_origin:
  assumes "\<forall>kv \<in> set fs. \<exists>u \<in> S. stored h u \<and> kv = (asRelativePath h u, text_of h u)"
      and "set us \<subseteq> S"
  shows "\<forall>kv \<in> set (fst (visit_uris h us (fs, ds, w))).
           \<exists>u \<in> S. stored h u \<and> kv = (asRelativePath h u, text_of h u)"
  using assms
proof (induction us arbitrary: fs ds w)
  case Nil
  then show ?case by (simp add: visit_uris_Nil)
next
  case (Cons u us)
  obtain fs1 ds1 w1 where v: "visit_uri h u (fs, ds, w) = (fs1, ds1, w1)"
    by (cases "visit_uri h u (fs, ds, w)") auto
  have fs1: "fs1 = (if stored h u then AList.update (asRelativePath h u) (text_of h u) fs else fs)"
    using visit_uri_files [of h u fs ds w] v by simp
  have "\<forall>kv \<in> set fs1. \<exists>u \<in> S. stored h u \<and> kv = (asRelativePath h u, text_of h u)"
  proof (cases "stored h u")
    case False
    with fs1 Cons.prems(1) show ?thesis by simp
  next
    case True
    with fs1 have "set fs1 \<subseteq> insert (asRelativePath h u, text_of h u) (set fs)"
      using set_update_subset [of "asRelativePath h u" "text_of h u" fs] by simp
    moreover from Cons.prems(2) have "u \<in> S" by simp
    ultimately show ?thesis using True Cons.prems(1) by blast
  qed
  moreover from Cons.prems(2) have "set us \<subseteq> S" by simp
  ultimately show ?case
    using Cons.IH [of fs1 ds1 w1] by (simp add: visit_uris_Cons v)
qed

lemma scan_folders_origin:
  assumes "scan_folders h fds (fs, ds, w) = (r, fs', ds', w')"
      and "\<forall>kv \<in> set fs. \<exists>u \<in> S. stored h u \<and> kv = (asRelativePath h u, text_of h u)"
      and "\<forall>f \<in> set fds. \<forall>uris. findFiles h f = Inr uris \<longrightarrow> set (take 100 uris) \<subseteq> S"
  shows "\<forall>kv \<in> set fs'. \<exists>u \<in> S. stored h u \<and> kv = (asRelativePath h u, text_of h u)"
  using assms
proof (induction fds arbitrary: fs ds w)
  case Nil
  then show ?case by simp
next
  case (Cons f fds)
  show ?case
  proof (cases "findFiles h f")
    case (Inl e)
    with Cons.prems(1) have "fs' = fs" by simp
    with Cons.prems(2) show ?thesis by simp
  next
    case u: (Inr uris)
    obtain fs1 ds1 w1 where v: "visit_uris h (take 100 uris) (fs, ds, w) = (fs1, ds1, w1)"
      by (cases "visit_uris h (take 100 uris) (fs, ds, w)") auto
    from Cons.prems(3) u have "set (take 100 uris) \<subseteq> S" by simp
    from visit_uris_origin [OF Cons.prems(2) this, of ds w] v
    have 1: "\<forall>kv \<in> set fs1. \<exists>u \<in> S. stored h u \<and> kv = (asRelativePath h u, text_of h u)"
      by simp
    from Cons.prems(1) u v have 2: "scan_folders h fds (fs1, ds1, w1) = (r, fs', ds', w')" by simp
    from Cons.prems(3)
    have 3: "\<forall>f \<in> set fds. \<forall>uris. findFiles h f = Inr uris \<longrightarrow> set (take 100 uris) \<subseteq> S"
      by simp
    from Cons.IH [OF 2 1 3] show ?thesis .
  qed
qed

lemma serialize_origin:
  assumes "fst (serializeWorkspaceState h svc w) = Inr ws"
  shows "\<forall>kv \<in> set (files ws).
           \<exists>u \<in> set (scanned h). stored h u \<and> kv = (asRelativePath h u, text_of h u)"
proof -
  let ?fds = "case workspaceFolders h of None \<Rightarrow> [] | Some wsFolders \<Rightarrow> wsFolders"
  from assms obtain sp where sp: "getStateProvider h = Inr sp"
    by (cases "getStateProvider h") (auto simp: serializeWorkspaceState_def)
  from assms sp obtain fs ds w1 where
    s: "scan_folders h ?fds ([], [], w) = (None, fs, ds, w1)" and f: "files ws = fs"
    by (cases "scan_folders h ?fds ([], [], w)")
       (auto simp: serializeWorkspaceState_def split: option.splits)
  have "\<forall>f \<in> set ?fds. \<forall>uris. findFiles h f = Inr uris \<longrightarrow> set (take 100 uris) \<subseteq> set (scanned h)"
    by (auto simp: scanned_def)
  from scan_folders_origin [OF s _ this] f show ?thesis by simp
qed

lemma stored_text:
  assumes "stored h u"
  shows "\<exists>bs. readFile h u = Inr bs \<and> text_of h u = toString_utf8 h bs
              \<and> CHR 0x00 \<notin> set (toString_utf8 h bs)"
  using assms
  by (auto simp: stored_def eligible_def text_of_def isTextFile_def split: sum.splits)

text \<open>
  Claim C7. Let the decoder map exactly the zero byte to NUL. In a snapshot that
  serialization yields, no value of \<open>files\<close> has a NUL character, and every entry was
  stored for a visited file whose bytes have no zero byte: its key is that file's
  relative path, its value that file's text. So a file with a zero byte has no entry:
  its relative path is not a key of \<open>files\<close>, unless another visited file has the
  same relative path.
\<close>

theorem binary_files_excluded:
  assumes dec: "nul_faithful (toString_utf8 h)"
      and ser: "fst (serializeWorkspaceState h svc w) = Inr ws"
  shows "(\<forall>kv \<in> set (files ws).
            CHR 0x00 \<notin> set (snd kv)
            \<and> (\<exists>u \<in> set (scanned h). \<exists>bs. fst kv = asRelativePath h u \<and> readFile h u = Inr bs
                   \<and> 0 \<notin> set bs \<and> snd kv = toString_utf8 h bs))
       \<and> (\<forall>u bs. readFile h u = Inr bs \<and> 0 \<in> set bs
             \<and> (\<forall>u' \<in> set (scanned h). asRelativePath h u' = asRelativePath h u \<longrightarrow> u' = u)
             \<longrightarrow> asRelativePath h u \<notin> fst ` set (files ws))"
proof -
  have origin: "\<exists>u \<in> set (scanned h). \<exists>bs. fst kv = asRelativePath h u \<and> readFile h u = Inr bs
                   \<and> 0 \<notin> set bs \<and> snd kv = toString_utf8 h bs \<and> CHR 0x00 \<notin> set (snd kv)"
    if kv: "kv \<in> set (files ws)" for kv
  proof -
    from serialize_origin [OF ser] kv obtain u where
      u: "u \<in> set (scanned h)" "stored h u" "kv = (asRelativePath h u, text_of h u)" by blast
    from stored_text [OF u(2)] obtain bs where
      bs: "readFile h u = Inr bs" "text_of h u = toString_utf8 h bs"
          "CHR 0x00 \<notin> set (toString_utf8 h bs)" by blast
    from dec bs(3) have "0 \<notin> set bs" by (simp add: nul_faithful_def)
    with u bs show ?thesis by auto
  qed
  have absent: "asRelativePath h u \<notin> fst ` set (files ws)"
    if r: "readFile h u = Inr bs" and z: "0 \<in> set bs"
      and q: "\<forall>u' \<in> set (scanned h). asRelativePath h u' = asRelativePath h u \<longrightarrow> u' = u"
    for u bs
  proof
    assume "asRelativePath h u \<in> fst ` set (files ws)"
    then obtain kv where kv: "kv \<in> set (files ws)" "fst kv = asRelativePath h u" by auto
    from origin [OF kv(1)] obtain u' bs' where
      u': "u' \<in> set (scanned h)" "fst kv = asRelativePath h u'" "readFile h u' = Inr bs'" "0 \<notin> set bs'"
      by blast
    from q u'(1,2) kv(2) have "u' = u" by simp
    with u'(3,4) r z show False by simp
  qed
  from origin absent show ?thesis by blast
qed

lemma demo_decoder_nul: "(char_of (unat (b :: 8 word)) = CHR 0x00) = (b = 0)"
proof -
  have z: "CHR 0x00 = char_of (0::nat)" by code_simp
  have "unat b < 2 ^ 8" using unsigned_less [of b, where ?'a = nat] by simp
  then have "take_bit 8 (unat b) = unat b" by (simp add: take_bit_nat_eq_self_iff)
  then show ?thesis
    by (simp add: z char_of_eq_iff unat_eq_0 del: char_of_nat)
qed

lemma demo_decoder_faithful: "nul_faithful (toString_utf8 demo_host)"
proof -
  have e: "(CHR 0x00 = char_of (unat b)) = (b = 0)" for b :: "8 word"
    using demo_decoder_nul [of b] by (simp only: eq_commute [of "CHR 0x00"])
  have "(CHR 0x00 \<in> set (map (\<lambda>b. char_of (unat b)) bs)) = (0 \<in> set bs)" for bs :: bytes
    by (induction bs) (simp_all only: list.map list.set insert_iff empty_iff e eq_commute [of 0])
  then show ?thesis by (simp add: nul_faithful_def demo_host_def)
qed

theorem binary_files_excluded_witness:
  "nul_faithful (toString_utf8 demo_host)
   \<and> fst (serializeWorkspaceState demo_host demo_service demo_world) =
       Inr \<lparr>version = JStr ''1.0.0'', timestamp = ''2025-01-01T00:00:00.000Z'',
            workspaceId = JStr ''ws'', apiConfiguration = JObj [], clineMessages = JArr [],
            currentTask = JNull, autoApprovalSettings = JObj [], browserSettings = JObj [],
            files = [(''a.txt'', ''hi''), (''b.txt'', ''hi'')], folders = []\<rparr>
   \<and> scanned demo_host = [''/ws/a.txt'', ''/ws/x.bin'', ''/ws/locked.txt'', ''/ws/b.txt'']
   \<and> readFile demo_host ''/ws/x.bin'' = Inr [0x68, 0x00]
   \<and> asRelativePath demo_host ''/ws/x.bin'' = ''x.bin''
   \<and> ''x.bin'' \<notin> fst ` set [(''a.txt'', ''hi''), (''b.txt'', ''hi'')]"
proof -
  have s: "fst (serializeWorkspaceState demo_host demo_service demo_world) =
       Inr \<lparr>version = JStr ''1.0.0'', timestamp = ''2025-01-01T00:00:00.000Z'',
            workspaceId = JStr ''ws'', apiConfiguration = JObj [], clineMessages = JArr [],
            currentTask = JNull, autoApprovalSettings = JObj [], browserSettings = JObj [],
            files = [(''a.txt'', ''hi''), (''b.txt'', ''hi'')], folders = []\<rparr>"
    by (simp add: demo_defs commit_defs demo_chars)
  have sc: "scanned demo_host = [''/ws/a.txt'', ''/ws/x.bin'', ''/ws/locked.txt'', ''/ws/b.txt'']"
    by (simp add: scanned_def demo_host_def)
  have r: "readFile demo_host ''/ws/x.bin'' = Inr [0x68, 0x00]"
     "asRelativePath demo_host ''/ws/x.bin'' = ''x.bin''"
    by (simp_all add: demo_host_def)
  from binary_files_excluded [OF demo_decoder_faithful s]
  have "\<forall>u bs. readFile demo_host u = Inr bs \<and> 0 \<in> set bs
             \<and> (\<forall>u' \<in> set (scanned demo_host). asRelativePath demo_host u' = asRelativePath demo_host u \<longrightarrow> u' = u)
             \<longrightarrow> asRelativePath demo_host u \<notin> fst ` set [(''a.txt'', ''hi''), (''b.txt'', ''hi'')]"
    by simp
  then have "readFile demo_host ''/ws/x.bin'' = Inr [0x68, 0x00] \<and> (0::8 word) \<in> set [0x68, 0x00]
             \<and> (\<forall>u' \<in> set (scanned demo_host). asRelativePath demo_host u' = asRelativePath demo_host ''/ws/x.bin'' \<longrightarrow> u' = ''/ws/x.bin'')
             \<longrightarrow> asRelativePath demo_host ''/ws/x.bin'' \<notin> fst ` set [(''a.txt'', ''hi''), (''b.txt'', ''hi'')]"
    by blast
  moreover have "\<forall>u' \<in> set (scanned demo_host). asRelativePath demo_host u' = asRelativePath demo_host ''/ws/x.bin'' \<longrightarrow> u' = ''/ws/x.bin''"
    by (simp add: sc) (simp add: demo_host_def)
  ultimately have "''x.bin'' \<notin> fst ` set [(''a.txt'', ''hi''), (''b.txt'', ''hi'')]"
    using r by simp
  with demo_decoder_faithful s sc r show ?thesis by blast
qed

section \<open>Read errors during serialization\<close>
















end
